theory Spec2Isabelle
  imports Main "HOL-Library.Sublist"
begin

section \<open>Values read from the configuration file\<close>

text \<open>
  \<^verbatim>\<open>yaml.load\<close> hands \<^verbatim>\<open>deploy.py\<close> plain Python objects. A scalar is
  \<^verbatim>\<open>None\<close>, a \<^verbatim>\<open>bool\<close>, an \<^verbatim>\<open>int\<close>, a \<^verbatim>\<open>float\<close> or a
  \<^verbatim>\<open>str\<close>. A float is carried as the text that Python prints for it, which is all
  the script ever does with one. A dictionary is an association list read through
  \<open>map_of\<close>; its key set is \<open>set (map fst d)\<close>. The values of the version mapping are
  scalars, as the annotation \<^verbatim>\<open>dict[str, str]\<close> of \<^verbatim>\<open>format_version\<close> declares.
\<close>

datatype scalar = SNone | SBool bool | SInt int | SFloat string | SStr string

datatype yaml_value =
    YScalar scalar
  | YMapping "(string \<times> scalar) list"
  | YSequence "scalar list"

type_synonym yaml_block = "(string \<times> yaml_value) list"

datatype error =
    KeyError string
  | AssertionError
  | AttributeError
  | TypeError
  | RuntimeError
  | FileNotFoundError
  | FileExistsError
  | NotADirectoryError
  | IsADirectoryError
  | SameFileError
  | ParseError
  | ValueError

section \<open>Python's \<^verbatim>\<open>str\<close> on scalars\<close>

definition digit_char :: "nat \<Rightarrow> char" where
  "digit_char d = ''0123456789'' ! d"

fun str_nat :: "nat \<Rightarrow> string" where
  "str_nat n = (if n < 10 then [digit_char n] else str_nat (n div 10) @ [digit_char (n mod 10)])"

declare str_nat.simps [simp del]

definition str_int :: "int \<Rightarrow> string" where
  "str_int i = (if i < 0 then CHR ''-'' # str_nat (nat (- i)) else str_nat (nat i))"

text \<open>
  CPython refuses to print an \<^verbatim>\<open>int\<close> in decimal when it has more digits than
  \<^verbatim>\<open>sys.int_info.default_max_str_digits\<close>, the sign not counted: the conversion, and
  with it the f-string of \<^verbatim>\<open>format_version\<close>, raises \<^verbatim>\<open>ValueError\<close>. The limit is
  the interpreter's default; the script does not change it.
\<close>

definition max_str_digits :: nat where
  "max_str_digits = 4300"

fun py_str :: "scalar \<Rightarrow> error + string" where
  "py_str SNone = Inr ''None''"
| "py_str (SBool b) = Inr (if b then ''True'' else ''False'')"
| "py_str (SInt i) =
     (if max_str_digits < length (str_nat (nat \<bar>i\<bar>)) then Inl ValueError else Inr (str_int i))"
| "py_str (SFloat r) = Inr r"
| "py_str (SStr s) = Inr s"

section \<open>\<^verbatim>\<open>ModInfo\<close>\<close>

record ModInfo =
  name :: string
  version :: string
  is_enabled :: bool
  semver_string :: string

text \<open>\<^verbatim>\<open>version_dict.get(k)\<close>: the value, or \<^verbatim>\<open>None\<close> for a missing key.\<close>

definition dict_get :: "(string \<times> scalar) list \<Rightarrow> string \<Rightarrow> scalar" where
  "dict_get d k = (case map_of d k of None \<Rightarrow> SNone | Some v \<Rightarrow> v)"

text \<open>
  \<^verbatim>\<open>format_version\<close> calls \<^verbatim>\<open>version_dict.keys()\<close>, which only a dictionary has:
  on any other object Python raises \<^verbatim>\<open>AttributeError\<close>. The f-string prints the three
  values from left to right and stops at the first that cannot be printed.
\<close>

fun format_version :: "yaml_value \<Rightarrow> error + string" where
  "format_version (YMapping version_dict) =
     (if set (map fst version_dict) = {''major'', ''minor'', ''patch''}
      then
        (case py_str (dict_get version_dict ''major'') of
           Inl e \<Rightarrow> Inl e
         | Inr major \<Rightarrow>
        (case py_str (dict_get version_dict ''minor'') of
           Inl e \<Rightarrow> Inl e
         | Inr minor \<Rightarrow>
        (case py_str (dict_get version_dict ''patch'') of
           Inl e \<Rightarrow> Inl e
         | Inr patch \<Rightarrow> Inr (major @ ''.'' @ minor @ ''.'' @ patch))))
      else Inl AssertionError)"
| "format_version (YScalar v) = Inl AttributeError"
| "format_version (YSequence vs) = Inl AttributeError"

definition from_dict :: "yaml_block \<Rightarrow> error + ModInfo" where
  "from_dict yaml_block =
     (case map_of yaml_block ''name'' of
        None \<Rightarrow> Inl (KeyError ''name'')
      | Some nm \<Rightarrow>
         (case nm of
            YScalar (SStr name_str) \<Rightarrow>
              (case map_of yaml_block ''versionNumber'' of
                 None \<Rightarrow> Inl (KeyError ''versionNumber'')
               | Some version_dict \<Rightarrow>
                  (case format_version version_dict of
                     Inl e \<Rightarrow> Inl e
                   | Inr ver \<Rightarrow>
                      (case map_of yaml_block ''enabled'' of
                         None \<Rightarrow> Inl (KeyError ''enabled'')
                       | Some en \<Rightarrow>
                          (case en of
                             YScalar (SBool b) \<Rightarrow>
                               Inr \<lparr>name = name_str, version = ver, is_enabled = b,
                                    semver_string = name_str @ ''-'' @ ver\<rparr>
                           | _ \<Rightarrow> Inl AssertionError))))
          | _ \<Rightarrow> Inl AssertionError))"

text \<open>
  The list comprehension \<^verbatim>\<open>[ModInfo.from_dict(b) for b in yaml_data]\<close> runs to the
  end of the data before anything is filtered, and stops at the first record that raises.
\<close>

fun from_dict_each :: "yaml_block list \<Rightarrow> error + ModInfo list" where
  "from_dict_each [] = Inr []"
| "from_dict_each (b # bs) =
     (case from_dict b of
        Inl e \<Rightarrow> Inl e
      | Inr m \<Rightarrow> (case from_dict_each bs of Inl e \<Rightarrow> Inl e | Inr ms \<Rightarrow> Inr (m # ms)))"


definition load_yaml_data :: "yaml_block list \<Rightarrow> error + ModInfo list" where
  "load_yaml_data yaml_data =
     (case from_dict_each yaml_data of
        Inl e \<Rightarrow> Inl e
      | Inr mods \<Rightarrow> Inr (filter is_enabled mods))"

section \<open>Paths and the filesystem\<close>

text \<open>
  A \<^verbatim>\<open>Path\<close> is the list of its components, relative to the working directory, which
  is the empty list (\<^verbatim>\<open>Path(".")\<close>). \<^verbatim>\<open>.name\<close> of a path without components is the
  empty string and its \<^verbatim>\<open>.parent\<close> is the path itself; joining the empty string
  changes nothing. \<open>path_join\<close> is \<^verbatim>\<open>/\<close> with a single component on the right, the
  only use the script makes of it.
\<close>

type_synonym path = "string list"

definition path_name :: "path \<Rightarrow> string" where
  "path_name p = (if p = [] then [] else last p)"

definition path_parent :: "path \<Rightarrow> path" where
  "path_parent p = butlast p"

definition path_join :: "path \<Rightarrow> string \<Rightarrow> path" where
  "path_join p s = (if s = [] then p else p @ [s])"

text \<open>
  The filesystem maps a path to what is there: a regular file with its text, or a
  directory. Symbolic links, permissions and full disks are left out. The working
  directory always exists.
\<close>

datatype node = File string | Dir

type_synonym fs = "path \<Rightarrow> node option"

definition node_at :: "fs \<Rightarrow> path \<Rightarrow> node option" where
  "node_at fs p = (if p = [] then Some Dir else fs p)"

definition is_file :: "fs \<Rightarrow> path \<Rightarrow> bool" where
  "is_file fs p = (case node_at fs p of Some (File c) \<Rightarrow> True | _ \<Rightarrow> False)"

definition exists_path :: "fs \<Rightarrow> path \<Rightarrow> bool" where
  "exists_path fs p = (case node_at fs p of None \<Rightarrow> False | Some n \<Rightarrow> True)"

definition read_text :: "fs \<Rightarrow> path \<Rightarrow> error + string" where
  "read_text fs p =
     (case node_at fs p of
        None \<Rightarrow> Inl FileNotFoundError
      | Some Dir \<Rightarrow> Inl IsADirectoryError
      | Some (File c) \<Rightarrow> Inr c)"

definition write_text :: "fs \<Rightarrow> path \<Rightarrow> string \<Rightarrow> error + fs" where
  "write_text fs p s =
     (case node_at fs p of
        Some Dir \<Rightarrow> Inl IsADirectoryError
      | Some (File c) \<Rightarrow> Inr (fs(p \<mapsto> File s))
      | None \<Rightarrow>
         (case node_at fs (butlast p) of
            None \<Rightarrow> Inl FileNotFoundError
          | Some (File c) \<Rightarrow> Inl NotADirectoryError
          | Some Dir \<Rightarrow> Inr (fs(p \<mapsto> File s))))"

text \<open>\<^verbatim>\<open>shutil.rmtree\<close>: the directory and everything below it goes.\<close>

definition rmtree :: "fs \<Rightarrow> path \<Rightarrow> error + fs" where
  "rmtree fs p =
     (case node_at fs p of
        None \<Rightarrow> Inl FileNotFoundError
      | Some (File c) \<Rightarrow> Inl NotADirectoryError
      | Some Dir \<Rightarrow> Inr (\<lambda>q. if prefix p q then None else fs q))"

text \<open>\<^verbatim>\<open>Path.mkdir()\<close> with its defaults: no parents are made, an existing entry is an error.\<close>

definition mkdir :: "fs \<Rightarrow> path \<Rightarrow> error + fs" where
  "mkdir fs p =
     (case node_at fs p of
        Some n \<Rightarrow> Inl FileExistsError
      | None \<Rightarrow>
         (case node_at fs (butlast p) of
            None \<Rightarrow> Inl FileNotFoundError
          | Some (File c) \<Rightarrow> Inl NotADirectoryError
          | Some Dir \<Rightarrow> Inr (fs(p \<mapsto> Dir))))"

text \<open>
  \<^verbatim>\<open>shutil.copy(src, dst)\<close>: a destination that is a directory receives the file under
  the source's own name; the source has to be a regular file.
\<close>

definition copy :: "fs \<Rightarrow> path \<Rightarrow> path \<Rightarrow> error + fs" where
  "copy fs src dst =
     (let target = (if node_at fs dst = Some Dir then dst @ [path_name src] else dst) in
      case node_at fs src of
        None \<Rightarrow> Inl FileNotFoundError
      | Some Dir \<Rightarrow> Inl IsADirectoryError
      | Some (File c) \<Rightarrow> if src = target then Inl SameFileError else write_text fs target c)"

text \<open>\<^verbatim>\<open>os.makedirs\<close>, walking down from a directory that exists.\<close>

fun makedirs_from :: "fs \<Rightarrow> path \<Rightarrow> string list \<Rightarrow> error + fs" where
  "makedirs_from fs base [] = Inr fs"
| "makedirs_from fs base (x # xs) =
     (case node_at fs (base @ [x]) of
        Some Dir \<Rightarrow> makedirs_from fs (base @ [x]) xs
      | Some (File c) \<Rightarrow> Inl NotADirectoryError
      | None \<Rightarrow> makedirs_from (fs(base @ [x] \<mapsto> Dir)) (base @ [x]) xs)"

text \<open>
  The tree below a directory, with paths relative to it: what
  \<^verbatim>\<open>shutil.make_archive(..., root_dir=d)\<close> packs.
\<close>

definition subtree :: "fs \<Rightarrow> path \<Rightarrow> fs" where
  "subtree fs d = (\<lambda>q. if q = [] then None else fs (d @ q))"

text \<open>
  \<^verbatim>\<open>make_archive\<close> appends \<^verbatim>\<open>.zip\<close> to the text of \<^verbatim>\<open>base_name\<close>; the text of
  the path without components is \<^verbatim>\<open>.\<close>.
\<close>

definition zip_filename :: "path \<Rightarrow> path" where
  "zip_filename base_name =
     (if base_name = [] then [''..zip''] else butlast base_name @ [last base_name @ ''.zip''])"

text \<open>
  \<^verbatim>\<open>shutil.make_archive(base_name, format="zip", root_dir=root_dir)\<close>: \<^verbatim>\<open>root_dir\<close>
  has to be a directory; a missing directory for the archive is created; the archive file
  is opened for writing and receives the encoding of the tree below \<^verbatim>\<open>root_dir\<close>. The
  encoder of the zip format is the parameter \<open>zip_encode\<close>. An archive written inside the
  directory it packs is outside this model.
\<close>

definition make_archive ::
  "(fs \<Rightarrow> string) \<Rightarrow> fs \<Rightarrow> path \<Rightarrow> path \<Rightarrow> (error + unit) \<times> fs" where
  "make_archive zip_encode fs base_name root_dir =
     (case node_at fs root_dir of
        None \<Rightarrow> (Inl FileNotFoundError, fs)
      | Some (File c) \<Rightarrow> (Inl NotADirectoryError, fs)
      | Some Dir \<Rightarrow>
         (case makedirs_from fs [] (butlast (zip_filename base_name)) of
            Inl e \<Rightarrow> (Inl e, fs)
          | Inr fs1 \<Rightarrow>
             (case write_text fs1 (zip_filename base_name) (zip_encode (subtree fs1 root_dir)) of
                Inl e \<Rightarrow> (Inl e, fs1)
              | Inr fs2 \<Rightarrow> (Inr (), fs2))))"

section \<open>The constants of the script\<close>

definition TEMPLATE_DIR :: path where
  "TEMPLATE_DIR = [''template'']"

definition MANIFEST_TEMPLATE_PATH :: path where
  "MANIFEST_TEMPLATE_PATH = path_join TEMPLATE_DIR ''manifest.json''"

definition DEPLOY_DIR :: path where
  "DEPLOY_DIR = [''deployment'']"

definition DEPLOY_NAME_SLUG :: string where
  "DEPLOY_NAME_SLUG = ''sivad''"

definition STATIC_TEMPLATE_FILES :: "string list" where
  "STATIC_TEMPLATE_FILES = [''icon.png'', ''README.md'']"

section \<open>Loading the sources\<close>

text \<open>
  \<open>yaml_load\<close> stands for \<^verbatim>\<open>yaml.load(..., Loader=yaml.CLoader)\<close> on a document that is
  a sequence of mappings; any other outcome of the parser is one of its errors.
\<close>

definition load_yaml ::
  "(string \<Rightarrow> error + yaml_block list) \<Rightarrow> path \<Rightarrow> fs \<Rightarrow> error + ModInfo list" where
  "load_yaml yaml_load yaml_path fs =
     (case read_text fs yaml_path of
        Inl e \<Rightarrow> Inl e
      | Inr yaml_string \<Rightarrow>
         (case yaml_load yaml_string of
            Inl e \<Rightarrow> Inl e
          | Inr yaml_data \<Rightarrow> load_yaml_data yaml_data))"

definition load_sources ::
  "(string \<Rightarrow> error + yaml_block list) \<Rightarrow> fs \<Rightarrow> error + ModInfo list" where
  "load_sources yaml_load fs = load_yaml yaml_load [''sources'', ''mods.yml''] fs"

section \<open>Initialising the deployment directory\<close>

record datetime =
  year :: nat
  month :: nat
  day :: nat
  hour :: nat
  minute :: nat

definition pad2 :: "nat \<Rightarrow> string" where
  "pad2 n = (if n < 10 then CHR ''0'' # str_nat n else str_nat n)"

text \<open>\<^verbatim>\<open>datetime.strftime(ts, format="%d-%m-%y")\<close>\<close>

definition strftime_dmy :: "datetime \<Rightarrow> string" where
  "strftime_dmy ts = pad2 (day ts) @ ''-'' @ pad2 (month ts) @ ''-'' @ pad2 (year ts mod 100)"

definition deployment_path_of :: "datetime \<Rightarrow> path" where
  "deployment_path_of ts = path_join DEPLOY_DIR (DEPLOY_NAME_SLUG @ ''_'' @ strftime_dmy ts)"

fun copy_each :: "string list \<Rightarrow> path \<Rightarrow> fs \<Rightarrow> (error + unit) \<times> fs" where
  "copy_each [] deployment_path fs = (Inr (), fs)"
| "copy_each (static_file # rest) deployment_path fs =
     (case copy fs (path_join TEMPLATE_DIR static_file) (path_join deployment_path static_file) of
        Inl e \<Rightarrow> (Inl e, fs)
      | Inr fs1 \<Rightarrow> copy_each rest deployment_path fs1)"

definition copy_template_files :: "path \<Rightarrow> fs \<Rightarrow> (error + unit) \<times> fs" where
  "copy_template_files deployment_path fs = copy_each STATIC_TEMPLATE_FILES deployment_path fs"

definition refresh :: "path \<Rightarrow> fs \<Rightarrow> (error + unit) \<times> fs" where
  "refresh deployment_path fs =
     (if is_file fs deployment_path then (Inl RuntimeError, fs)
      else
        (case (if exists_path fs deployment_path then rmtree fs deployment_path else Inr fs) of
           Inl e \<Rightarrow> (Inl e, fs)
         | Inr fs1 \<Rightarrow>
            (case mkdir fs1 deployment_path of
               Inl e \<Rightarrow> (Inl e, fs1)
             | Inr fs2 \<Rightarrow> (Inr (), fs2))))"

definition init_deployment :: "datetime \<Rightarrow> fs \<Rightarrow> (error + path) \<times> fs" where
  "init_deployment ts fs =
     (let deployment_path = deployment_path_of ts in
      case refresh deployment_path fs of
        (Inl e, fs1) \<Rightarrow> (Inl e, fs1)
      | (Inr u, fs1) \<Rightarrow>
         (case copy_template_files deployment_path fs1 of
            (Inl e, fs2) \<Rightarrow> (Inl e, fs2)
          | (Inr u, fs2) \<Rightarrow> (Inr deployment_path, fs2)))"

section \<open>The manifest\<close>

text \<open>What \<^verbatim>\<open>json.loads\<close> returns; a float is again carried as its text.\<close>

datatype json =
    JNull
  | JBool bool
  | JInt int
  | JFloat string
  | JStr string
  | JArray "json list"
  | JObject "(string \<times> json) list"

text \<open>
  The dataclass does not check its fields: the first four hold whatever the template
  holds. \<^verbatim>\<open>dependencies\<close> is the empty list when it comes from the template (the
  constructor runs after the assertion) and a list of strings when it comes from
  \<^verbatim>\<open>with_deps\<close>.
\<close>

record Manifest =
  name :: json
  version_number :: json
  website_url :: json
  description :: json
  dependencies :: "string list"

text \<open>\<^verbatim>\<open>data[key]\<close>: only a dictionary can be indexed with a string.\<close>

definition getitem :: "json \<Rightarrow> string \<Rightarrow> error + json" where
  "getitem data k =
     (case data of
        JObject d \<Rightarrow> (case map_of d k of None \<Rightarrow> Inl (KeyError k) | Some v \<Rightarrow> Inr v)
      | _ \<Rightarrow> Inl TypeError)"

text \<open>
  \<open>json_dumps\<close> and \<open>json_loads\<close> stand for \<^verbatim>\<open>json.dumps\<close> and \<^verbatim>\<open>json.loads\<close>.
  The dictionary that \<^verbatim>\<open>to_json\<close> builds keeps its keys in the order written.
\<close>

definition to_json :: "(json \<Rightarrow> string) \<Rightarrow> Manifest \<Rightarrow> string" where
  "to_json json_dumps m =
     json_dumps (JObject
       [(''name'', Manifest.name m),
        (''version_number'', version_number m),
        (''website_url'', website_url m),
        (''description'', description m),
        (''dependencies'', JArray (map JStr (dependencies m)))])"

definition write_to :: "(json \<Rightarrow> string) \<Rightarrow> Manifest \<Rightarrow> path \<Rightarrow> fs \<Rightarrow> (error + unit) \<times> fs" where
  "write_to json_dumps m dest fs =
     (case write_text fs dest (to_json json_dumps m) of
        Inl e \<Rightarrow> (Inl e, fs)
      | Inr fs1 \<Rightarrow> (Inr (), fs1))"

definition with_deps :: "Manifest \<Rightarrow> ModInfo list \<Rightarrow> Manifest" where
  "with_deps m mods =
     \<lparr>Manifest.name = Manifest.name m,
      version_number = version_number m,
      website_url = website_url m,
      description = description m,
      dependencies = map semver_string mods\<rparr>"

definition from_template_path ::
  "(string \<Rightarrow> error + json) \<Rightarrow> path \<Rightarrow> fs \<Rightarrow> error + Manifest" where
  "from_template_path json_loads template_path fs =
     (case read_text fs template_path of
        Inl e \<Rightarrow> Inl e
      | Inr json_string \<Rightarrow>
     (case json_loads json_string of
        Inl e \<Rightarrow> Inl e
      | Inr data \<Rightarrow>
     (case getitem data ''name'' of
        Inl e \<Rightarrow> Inl e
      | Inr nm \<Rightarrow>
     (case getitem data ''version_number'' of
        Inl e \<Rightarrow> Inl e
      | Inr vn \<Rightarrow>
     (case getitem data ''website_url'' of
        Inl e \<Rightarrow> Inl e
      | Inr url \<Rightarrow>
     (case getitem data ''description'' of
        Inl e \<Rightarrow> Inl e
      | Inr descr \<Rightarrow>
     (case getitem data ''dependencies'' of
        Inl e \<Rightarrow> Inl e
      | Inr deps \<Rightarrow>
         if deps = JArray []
         then Inr \<lparr>Manifest.name = nm, version_number = vn, website_url = url,
                   description = descr, dependencies = []\<rparr>
         else Inl AssertionError)))))))"

definition read_manifest_template :: "(string \<Rightarrow> error + json) \<Rightarrow> fs \<Rightarrow> error + Manifest" where
  "read_manifest_template json_loads fs = from_template_path json_loads MANIFEST_TEMPLATE_PATH fs"

definition write_manifest_json ::
  "(string \<Rightarrow> error + json) \<Rightarrow> (json \<Rightarrow> string) \<Rightarrow> ModInfo list \<Rightarrow> path \<Rightarrow> fs
     \<Rightarrow> (error + unit) \<times> fs" where
  "write_manifest_json json_loads json_dumps mods manifest_path fs =
     (case read_manifest_template json_loads fs of
        Inl e \<Rightarrow> (Inl e, fs)
      | Inr template_manifest \<Rightarrow>
          write_to json_dumps (with_deps template_manifest mods) manifest_path fs)"

definition populate_dependencies ::
  "(string \<Rightarrow> error + json) \<Rightarrow> (json \<Rightarrow> string) \<Rightarrow> ModInfo list \<Rightarrow> path \<Rightarrow> fs
     \<Rightarrow> (error + unit) \<times> fs" where
  "populate_dependencies json_loads json_dumps mods deploy_dir fs =
     write_manifest_json json_loads json_dumps mods (path_join deploy_dir ''manifest.json'') fs"

section \<open>The archive and the whole run\<close>

definition zip_deployment :: "(fs \<Rightarrow> string) \<Rightarrow> path \<Rightarrow> fs \<Rightarrow> (error + unit) \<times> fs" where
  "zip_deployment zip_encode deploy_dir fs =
     (let zip_name = path_name deploy_dir;
          zip_path = path_join (path_parent deploy_dir) zip_name
      in make_archive zip_encode fs zip_path deploy_dir)"

definition deploy_it ::
  "(string \<Rightarrow> error + yaml_block list) \<Rightarrow> (string \<Rightarrow> error + json) \<Rightarrow> (json \<Rightarrow> string)
     \<Rightarrow> (fs \<Rightarrow> string) \<Rightarrow> datetime \<Rightarrow> fs \<Rightarrow> (error + unit) \<times> fs" where
  "deploy_it yaml_load json_loads json_dumps zip_encode ts fs =
     (case load_sources yaml_load fs of
        Inl e \<Rightarrow> (Inl e, fs)
      | Inr mods \<Rightarrow>
         (case init_deployment ts fs of
            (Inl e, fs1) \<Rightarrow> (Inl e, fs1)
          | (Inr deploy_dir, fs1) \<Rightarrow>
             (case populate_dependencies json_loads json_dumps mods deploy_dir fs1 of
                (Inl e, fs2) \<Rightarrow> (Inl e, fs2)
              | (Inr u, fs2) \<Rightarrow> zip_deployment zip_encode deploy_dir fs2)))"

section \<open>Shapes of inputs that the properties speak about\<close>

text \<open>
  A record of the configuration as the interface description has it: a string
  \<^verbatim>\<open>name\<close>, a mapping \<^verbatim>\<open>versionNumber\<close> with exactly the keys \<^verbatim>\<open>major\<close>,
  \<^verbatim>\<open>minor\<close> and \<^verbatim>\<open>patch\<close>, and a boolean \<^verbatim>\<open>enabled\<close>.
\<close>

definition valid_record :: "yaml_block \<Rightarrow> bool" where
  "valid_record b =
     (case map_of b ''name'' of
        Some (YScalar (SStr n)) \<Rightarrow>
          (case map_of b ''versionNumber'' of
             Some (YMapping vd) \<Rightarrow>
               set (map fst vd) = {''major'', ''minor'', ''patch''} \<and>
               (case map_of b ''enabled'' of
                  Some (YScalar (SBool en)) \<Rightarrow> True
                | _ \<Rightarrow> False)
           | _ \<Rightarrow> False)
      | _ \<Rightarrow> False)"

definition enabled_flag :: "yaml_block \<Rightarrow> bool" where
  "enabled_flag b = (map_of b ''enabled'' = Some (YScalar (SBool True)))"

text \<open>
  An integer that Python prints: fewer than \<open>10 ^ 4300\<close> in absolute value. A version
  mapping is within the limit when the three values the f-string prints are; values that
  are not integers always print.
\<close>

definition within_str_limit :: "int \<Rightarrow> bool" where
  "within_str_limit i = (\<bar>i\<bar> < 10 ^ 4300)"

definition printable :: "scalar \<Rightarrow> bool" where
  "printable v = (case v of SInt i \<Rightarrow> within_str_limit i | _ \<Rightarrow> True)"

definition versions_within_limit :: "(string \<times> scalar) list \<Rightarrow> bool" where
  "versions_within_limit vd =
     (printable (dict_get vd ''major'') \<and> printable (dict_get vd ''minor'') \<and>
      printable (dict_get vd ''patch''))"

definition record_within_limit :: "yaml_block \<Rightarrow> bool" where
  "record_within_limit b =
     (case map_of b ''versionNumber'' of
        Some (YMapping vd) \<Rightarrow> versions_within_limit vd
      | _ \<Rightarrow> True)"

text \<open>
  What a decimal numeral without padding is, said without the printer: a non-empty string
  of the digits \<^verbatim>\<open>0\<close> to \<^verbatim>\<open>9\<close> that starts with \<^verbatim>\<open>0\<close> only when it is
  \<^verbatim>\<open>0\<close> itself, read in base ten; a negative number has a minus sign in front of the
  numeral of its absolute value.
\<close>

definition digit_value :: "char \<Rightarrow> nat" where
  "digit_value c = of_char c - 48"

definition digits_value :: "string \<Rightarrow> nat" where
  "digits_value ds = foldl (\<lambda>acc c. 10 * acc + digit_value c) 0 ds"

definition unsigned_numeral :: "string \<Rightarrow> nat \<Rightarrow> bool" where
  "unsigned_numeral ds n =
     (ds \<noteq> [] \<and> list_all (\<lambda>c. c \<in> set ''0123456789'') ds \<and>
      (if hd ds = CHR ''0'' then ds = ''0'' else True) \<and> digits_value ds = n)"

definition decimal_numeral :: "string \<Rightarrow> int \<Rightarrow> bool" where
  "decimal_numeral s i =
     (if i < 0 then s \<noteq> [] \<and> hd s = CHR ''-'' \<and> unsigned_numeral (tl s) (nat (- i))
      else unsigned_numeral s (nat i))"

text \<open>A filesystem is a tree: whatever exists lies in a directory.\<close>

definition tree_shaped :: "fs \<Rightarrow> bool" where
  "tree_shaped fs = (\<forall>p. p \<noteq> [] \<longrightarrow> fs p \<noteq> None \<longrightarrow> node_at fs (butlast p) = Some Dir)"

section \<open>Example inputs\<close>

definition record_A :: yaml_block where
  "record_A =
     [(''name'', YScalar (SStr ''A'')),
      (''versionNumber'', YMapping [(''major'', SInt 1), (''minor'', SInt 0), (''patch'', SInt 0)]),
      (''enabled'', YScalar (SBool True))]"

definition record_B :: yaml_block where
  "record_B =
     [(''enabled'', YScalar (SBool True)),
      (''versionNumber'', YMapping [(''patch'', SInt 0), (''minor'', SInt 1), (''major'', SInt 2)]),
      (''name'', YScalar (SStr ''B''))]"

definition record_off :: yaml_block where
  "record_off =
     [(''name'', YScalar (SStr ''Off'')),
      (''versionNumber'', YMapping [(''major'', SInt 0), (''minor'', SInt 7), (''patch'', SInt 12)]),
      (''enabled'', YScalar (SBool False))]"

text \<open>A disabled record whose version mapping lacks \<^verbatim>\<open>patch\<close>.\<close>

definition record_off_broken :: yaml_block where
  "record_off_broken =
     [(''name'', YScalar (SStr ''Broken'')),
      (''versionNumber'', YMapping [(''major'', SInt 2), (''minor'', SInt 1)]),
      (''enabled'', YScalar (SBool False))]"

text \<open>A well-formed record whose major version has 4301 digits.\<close>

definition record_huge :: yaml_block where
  "record_huge =
     [(''name'', YScalar (SStr ''Huge'')),
      (''versionNumber'',
         YMapping [(''major'', SInt (10 ^ max_str_digits)), (''minor'', SInt 0), (''patch'', SInt 0)]),
      (''enabled'', YScalar (SBool True))]"

definition yaml_huge :: "string \<Rightarrow> error + yaml_block list" where
  "yaml_huge s = Inr [record_huge]"

definition mod_A :: ModInfo where
  "mod_A = \<lparr>ModInfo.name = ''A'', version = ''1.0.0'', is_enabled = True,
            semver_string = ''A-1.0.0''\<rparr>"

definition mod_B :: ModInfo where
  "mod_B = \<lparr>ModInfo.name = ''B'', version = ''2.1.0'', is_enabled = True,
            semver_string = ''B-2.1.0''\<rparr>"

definition sources_only :: fs where
  "sources_only = [[''sources'', ''mods.yml''] \<mapsto> File ''mods'']"

definition nov3 :: datetime where
  "nov3 = \<lparr>year = 2026, month = 11, day = 3, hour = 9, minute = 30\<rparr>"

definition nov3_evening :: datetime where
  "nov3_evening = \<lparr>year = 2026, month = 11, day = 3, hour = 18, minute = 5\<rparr>"

definition blocked_fs :: fs where
  "blocked_fs = [[''deployment''] \<mapsto> Dir, [''deployment'', ''sivad_03-11-26''] \<mapsto> File ''notes'']"

definition project_fs :: fs where
  "project_fs =
     [[''sources''] \<mapsto> Dir,
      [''sources'', ''mods.yml''] \<mapsto> File ''mods'',
      [''template''] \<mapsto> Dir,
      [''template'', ''manifest.json''] \<mapsto> File ''tpl'',
      [''template'', ''icon.png''] \<mapsto> File ''PNG'',
      [''template'', ''README.md''] \<mapsto> File ''# readme'',
      [''deployment''] \<mapsto> Dir]"

definition stale_fs :: fs where
  "stale_fs = project_fs
     ([''deployment'', ''sivad_03-11-26''] \<mapsto> Dir,
      [''deployment'', ''sivad_03-11-26'', ''manifest.json''] \<mapsto> File ''old'',
      [''deployment'', ''sivad_03-11-26'', ''cache''] \<mapsto> Dir,
      [''deployment'', ''sivad_03-11-26'', ''cache'', ''x.tmp''] \<mapsto> File ''junk'')"

definition fresh_fs :: fs where
  "fresh_fs = project_fs
     ([''deployment'', ''sivad_03-11-26''] \<mapsto> Dir,
      [''deployment'', ''sivad_03-11-26'', ''icon.png''] \<mapsto> File ''PNG'',
      [''deployment'', ''sivad_03-11-26'', ''README.md''] \<mapsto> File ''# readme'')"

definition good_template :: "(string \<times> json) list" where
  "good_template =
     [(''name'', JStr ''sivad''), (''version_number'', JStr ''1.0.0''),
      (''website_url'', JStr ''example.org''), (''description'', JStr ''pack''),
      (''dependencies'', JArray [])]"

definition bad_template :: "(string \<times> json) list" where
  "bad_template =
     [(''name'', JStr ''sivad''), (''version_number'', JStr ''1.0.0''),
      (''website_url'', JStr ''example.org''), (''description'', JStr ''pack''),
      (''dependencies'', JArray [JStr ''X-0.0.1''])]"

primrec plain_dumps :: "json \<Rightarrow> string" where
  "plain_dumps JNull = ''null''"
| "plain_dumps (JBool b) = (if b then ''true'' else ''false'')"
| "plain_dumps (JInt i) = str_int i"
| "plain_dumps (JFloat r) = r"
| "plain_dumps (JStr s) = CHR 0x22 # s @ [CHR 0x22]"
| "plain_dumps (JArray xs) = ''['' @ concat (map plain_dumps xs) @ '']''"
| "plain_dumps (JObject kvs) =
     ''{'' @ concat (map (\<lambda>kv. fst kv @ '':'' @ snd kv) (map (map_prod id plain_dumps) kvs)) @ ''}''"

definition manifest_text :: string where
  "manifest_text = plain_dumps (JObject
        [(''name'', JStr ''sivad''), (''version_number'', JStr ''1.0.0''),
         (''website_url'', JStr ''example.org''), (''description'', JStr ''pack''),
         (''dependencies'', JArray [JStr ''A-1.0.0'', JStr ''B-2.1.0''])])"

definition populated_fs :: fs where
  "populated_fs = fresh_fs([''deployment'', ''sivad_03-11-26'', ''manifest.json''] \<mapsto> File manifest_text)"

text \<open>A stand-in for the zip encoder that keeps the text of the manifest entry.\<close>

definition entry_text :: "fs \<Rightarrow> string" where
  "entry_text tree = (case tree [''manifest.json''] of Some (File c) \<Rightarrow> c | _ \<Rightarrow> [])"

definition deployed_fs :: fs where
  "deployed_fs = populated_fs([''deployment'', ''sivad_03-11-26.zip''] \<mapsto> File manifest_text)"

definition archived_fs :: fs where
  "archived_fs = fresh_fs([''deployment'', ''sivad_03-11-26.zip''] \<mapsto> File manifest_text)"

section \<open>Printing integers\<close>

lemma str_nat_small: "n < 10 \<Longrightarrow> str_nat n = [digit_char n]"
  by (simp add: str_nat.simps)

lemma str_nat_large: "\<not> n < 10 \<Longrightarrow> str_nat n = str_nat (n div 10) @ [digit_char (n mod 10)]"
  by (subst str_nat.simps) simp

lemma str_nat_nonempty: "str_nat n \<noteq> []"
  by (subst str_nat.simps) simp

lemma below_ten: "d < 10 \<Longrightarrow> d \<in> {0, 1, 2, 3, 4, 5, 6, 7, 8, 9 :: nat}"
  by auto

lemma digit_char_zero: "d < 10 \<Longrightarrow> (digit_char d = CHR ''0'') = (d = 0)"
  using below_ten [of d] unfolding digit_char_def by auto

lemma digit_char_is_digit: "d < 10 \<Longrightarrow> digit_char d \<in> set ''0123456789''"
  using below_ten [of d] unfolding digit_char_def by auto

lemma digit_value_digit_char: "d < 10 \<Longrightarrow> digit_value (digit_char d) = d"
  using below_ten [of d] unfolding digit_char_def digit_value_def by auto

lemma digit_char_digit_value:
  "c \<in> set ''0123456789'' \<Longrightarrow> digit_value c < 10 \<and> digit_char (digit_value c) = c"
  unfolding digit_char_def digit_value_def by auto

lemma digits_value_snoc: "digits_value (ds @ [c]) = 10 * digits_value ds + digit_value c"
  by (simp add: digits_value_def)

lemma digits_value_str_nat: "digits_value (str_nat n) = n"
proof (induction n rule: str_nat.induct)
  case (1 n)
  show ?case
  proof (cases "n < 10")
    case True
    then show ?thesis by (simp add: str_nat_small digits_value_def digit_value_digit_char)
  next
    case False
    with "1.IH" show ?thesis
      by (simp add: str_nat_large digits_value_snoc digit_value_digit_char)
  qed
qed

lemma str_nat_all_digits: "list_all (\<lambda>c. c \<in> set ''0123456789'') (str_nat n)"
proof (induction n rule: str_nat.induct)
  case (1 n)
  show ?case
  proof (cases "n < 10")
    case True
    then show ?thesis using digit_char_is_digit [of n] by (simp add: str_nat_small)
  next
    case False
    with "1.IH" digit_char_is_digit [of "n mod 10"] show ?thesis
      by (simp add: str_nat_large)
  qed
qed

lemma str_nat_no_leading_zero: "0 < n \<Longrightarrow> hd (str_nat n) \<noteq> CHR ''0''"
proof (induction n rule: str_nat.induct)
  case (1 n)
  show ?case
  proof (cases "n < 10")
    case True
    with "1.prems" show ?thesis by (simp add: str_nat_small digit_char_zero)
  next
    case False
    then have pos: "0 < n div 10" by simp
    from False have "str_nat n = str_nat (n div 10) @ [digit_char (n mod 10)]"
      by (rule str_nat_large)
    then show ?thesis using "1.IH"[OF False pos] by (simp add: str_nat_nonempty)
  qed
qed

lemma str_nat_zero: "str_nat 0 = ''0''"
  by (simp add: str_nat_small digit_char_def)

lemma unsigned_numeral_str_nat: "unsigned_numeral (str_nat n) n"
proof (cases "n = 0")
  case True
  then show ?thesis
    by (simp add: unsigned_numeral_def str_nat_zero digits_value_def digit_value_def)
next
  case False
  then have "hd (str_nat n) \<noteq> CHR ''0''" by (simp add: str_nat_no_leading_zero)
  with str_nat_all_digits [of n] show ?thesis
    by (simp add: unsigned_numeral_def str_nat_nonempty digits_value_str_nat)
qed

lemma decimal_numeral_str_int: "decimal_numeral (str_int i) i"
  by (simp add: decimal_numeral_def str_int_def unsigned_numeral_str_nat)

text \<open>The numeral of a number is unique, so the predicate pins the text.\<close>

lemma digits_value_positive:
  assumes "ds \<noteq> []" and "list_all (\<lambda>c. c \<in> set ''0123456789'') ds" and "hd ds \<noteq> CHR ''0''"
  shows "0 < digits_value ds"
  using assms
proof (induction ds rule: rev_induct)
  case Nil
  then show ?case by simp
next
  case (snoc c cs)
  show ?case
  proof (cases "cs = []")
    case True
    with snoc.prems have "c \<in> set ''0123456789''" "c \<noteq> CHR ''0''" by simp_all
    then have "0 < digit_value c" unfolding digit_value_def by auto
    with True show ?thesis by (simp add: digits_value_def)
  next
    case False
    with snoc have "0 < digits_value cs" by simp
    then show ?thesis by (simp add: digits_value_snoc)
  qed
qed

lemma unsigned_numeral_unique: "unsigned_numeral ds n \<Longrightarrow> ds = str_nat n"
proof (induction ds arbitrary: n rule: rev_induct)
  case Nil
  then show ?case by (simp add: unsigned_numeral_def)
next
  case (snoc c cs)
  from snoc.prems have digs: "list_all (\<lambda>c. c \<in> set ''0123456789'') cs" and c: "c \<in> set ''0123456789''"
    and val: "10 * digits_value cs + digit_value c = n"
    and lead: "hd (cs @ [c]) = CHR ''0'' \<Longrightarrow> cs = []"
    by (auto simp: unsigned_numeral_def digits_value_snoc split: if_splits)
  from c have cv: "digit_value c < 10" "digit_char (digit_value c) = c"
    using digit_char_digit_value by blast+
  show ?case
  proof (cases "cs = []")
    case True
    with val cv have "n < 10" "digit_char n = c" by (simp_all add: digits_value_def)
    with True show ?thesis by (simp add: str_nat_small)
  next
    case False
    with lead have nz: "hd cs \<noteq> CHR ''0''" by auto
    with False digs have pos: "0 < digits_value cs" by (intro digits_value_positive)
    from False nz digs have "unsigned_numeral cs (digits_value cs)"
      by (simp add: unsigned_numeral_def)
    then have cs: "cs = str_nat (digits_value cs)" by (rule snoc.IH)
    from val cv pos have big: "\<not> n < 10" and d: "n div 10 = digits_value cs" and m: "n mod 10 = digit_value c"
      by auto
    from str_nat_large [OF big] d m cv cs show ?thesis by simp
  qed
qed

lemma decimal_numeral_unique: "decimal_numeral s i \<Longrightarrow> s = str_int i"
proof (cases "i < 0")
  case True
  assume "decimal_numeral s i"
  with True have "s \<noteq> []" "hd s = CHR ''-''" "tl s = str_nat (nat (- i))"
    by (auto simp: decimal_numeral_def dest: unsigned_numeral_unique)
  then have "s = CHR ''-'' # str_nat (nat (- i))" by (cases s) simp_all
  with True show ?thesis by (simp add: str_int_def)
next
  case False
  assume "decimal_numeral s i"
  with False show ?thesis
    by (auto simp: decimal_numeral_def str_int_def dest: unsigned_numeral_unique)
qed


subsection \<open>The limit on digits\<close>

lemma length_str_nat_le: "length (str_nat n) \<le> Suc j \<longleftrightarrow> n < 10 ^ Suc j"
proof (induction n arbitrary: j rule: str_nat.induct)
  case (1 n)
  show ?case
  proof (cases "n < 10")
    case True
    have "(10::nat) ^ 1 \<le> 10 ^ Suc j" by (intro power_increasing) simp_all
    then have "(10::nat) \<le> 10 * 10 ^ j" by simp
    with True have "n < 10 * 10 ^ j" by (rule less_le_trans)
    with True show ?thesis by (simp add: str_nat_small)
  next
    case False
    note big = this
    show ?thesis
    proof (cases j)
      case 0
      with big show ?thesis
        using str_nat_nonempty [of "n div 10"]
        by (simp add: str_nat_large Suc_le_eq)
    next
      case (Suc k)
      have "length (str_nat n) \<le> Suc j \<longleftrightarrow> length (str_nat (n div 10)) \<le> Suc k"
        using big Suc by (simp add: str_nat_large)
      also have "\<dots> \<longleftrightarrow> n div 10 < 10 ^ Suc k" by (rule "1.IH" [OF big])
      also have "\<dots> \<longleftrightarrow> n < 10 ^ Suc j"
        using Suc by (simp add: div_less_iff_less_mult mult.commute)
      finally show ?thesis .
    qed
  qed
qed

lemma max_str_digits_Suc: "max_str_digits = Suc 4299"
  by (simp add: max_str_digits_def)

lemma within_str_limit_iff: "within_str_limit i \<longleftrightarrow> \<bar>i\<bar> < 10 ^ max_str_digits"
  unfolding within_str_limit_def max_str_digits_def by (rule refl)

lemma too_long_iff: "max_str_digits < length (str_nat (nat \<bar>i\<bar>)) \<longleftrightarrow> \<not> within_str_limit i"
proof -
  have "length (str_nat (nat \<bar>i\<bar>)) \<le> max_str_digits \<longleftrightarrow> nat \<bar>i\<bar> < 10 ^ max_str_digits"
    unfolding max_str_digits_Suc by (rule length_str_nat_le)
  also have "\<dots> \<longleftrightarrow> \<bar>i\<bar> < 10 ^ max_str_digits"
    by (simp add: nat_less_iff)
  finally show ?thesis by (auto simp: within_str_limit_iff)
qed

lemma py_str_SInt:
  "py_str (SInt i) = (if within_str_limit i then Inr (str_int i) else Inl ValueError)"
  by (simp add: too_long_iff)

lemma py_str_cases:
  "py_str v = (if printable v then Inr (case v of SNone \<Rightarrow> ''None''
       | SBool b \<Rightarrow> (if b then ''True'' else ''False'') | SInt i \<Rightarrow> str_int i
       | SFloat r \<Rightarrow> r | SStr s \<Rightarrow> s) else Inl ValueError)"
  by (cases v) (simp_all add: printable_def py_str_SInt del: py_str.simps(3))

lemma py_str_printable: "printable v \<Longrightarrow> \<exists>s. py_str v = Inr s"
  by (simp add: py_str_cases)

lemma py_str_unprintable: "\<not> printable v \<Longrightarrow> py_str v = Inl ValueError"
  by (simp add: py_str_cases)

lemma within_small: "\<bar>i\<bar> < 1000 \<Longrightarrow> within_str_limit i"
proof -
  assume "\<bar>i\<bar> < 1000"
  moreover have "(10::int) ^ 3 \<le> 10 ^ max_str_digits"
    by (intro power_increasing) (simp_all add: max_str_digits_def)
  ultimately show ?thesis by (simp add: within_str_limit_iff)
qed

lemma not_within_huge: "\<not> within_str_limit (10 ^ max_str_digits)"
  by (simp add: within_str_limit_iff)

lemma py_str_small: "\<bar>i\<bar> < 1000 \<Longrightarrow> py_str (SInt i) = Inr (str_int i)"
  by (simp add: py_str_SInt within_small del: py_str.simps(3))

lemma format_version_mapping:
  assumes "set (map fst vd) = {''major'', ''minor'', ''patch''}"
  shows "format_version (YMapping vd) =
     (if versions_within_limit vd
      then (case (py_str (dict_get vd ''major''), py_str (dict_get vd ''minor''),
                  py_str (dict_get vd ''patch'')) of
              (Inr x, Inr y, Inr z) \<Rightarrow> Inr (x @ ''.'' @ y @ ''.'' @ z)
            | _ \<Rightarrow> Inl ValueError)
      else Inl ValueError)"
  using assms
  by (auto simp: versions_within_limit_def py_str_cases split: sum.splits)

lemma format_version_ok:
  assumes "set (map fst vd) = {''major'', ''minor'', ''patch''}" and "versions_within_limit vd"
  shows "\<exists>x y z. py_str (dict_get vd ''major'') = Inr x \<and> py_str (dict_get vd ''minor'') = Inr y \<and>
           py_str (dict_get vd ''patch'') = Inr z \<and>
           format_version (YMapping vd) = Inr (x @ ''.'' @ y @ ''.'' @ z)"
  using assms by (auto simp: versions_within_limit_def py_str_cases)

lemma format_version_too_long:
  assumes "set (map fst vd) = {''major'', ''minor'', ''patch''}" and "\<not> versions_within_limit vd"
  shows "format_version (YMapping vd) = Inl ValueError"
  using assms by (auto simp: versions_within_limit_def py_str_cases split: sum.splits)


section \<open>Parsing the records\<close>

lemma valid_record_parses:
  assumes "valid_record b" and "record_within_limit b"
  shows "\<exists>m. from_dict b = Inr m \<and> is_enabled m = enabled_flag b"
proof -
  from assms(1) obtain n vd en
    where nm: "map_of b ''name'' = Some (YScalar (SStr n))"
      and vn: "map_of b ''versionNumber'' = Some (YMapping vd)"
      and ks: "set (map fst vd) = {''major'', ''minor'', ''patch''}"
      and en: "map_of b ''enabled'' = Some (YScalar (SBool en))"
    by (auto simp: valid_record_def split: option.splits yaml_value.splits scalar.splits)
  from assms(2) vn have "versions_within_limit vd" by (simp add: record_within_limit_def)
  from format_version_ok [OF ks this] obtain ver where "format_version (YMapping vd) = Inr ver"
    by blast
  then show ?thesis by (simp add: from_dict_def nm vn en enabled_flag_def)
qed

lemma valid_record_too_long:
  assumes "valid_record b" and "\<not> record_within_limit b"
  shows "from_dict b = Inl ValueError"
proof -
  from assms(1) obtain n vd
    where nm: "map_of b ''name'' = Some (YScalar (SStr n))"
      and vn: "map_of b ''versionNumber'' = Some (YMapping vd)"
      and ks: "set (map fst vd) = {''major'', ''minor'', ''patch''}"
    by (auto simp: valid_record_def split: option.splits yaml_value.splits scalar.splits)
  from assms(2) vn have "\<not> versions_within_limit vd" by (simp add: record_within_limit_def)
  from format_version_too_long [OF ks this] show ?thesis by (simp add: from_dict_def nm vn)
qed

lemma from_dict_each_Inr:
  "from_dict_each data = Inr ms \<Longrightarrow> list_all2 (\<lambda>m b. from_dict b = Inr m) ms data"
  by (induction data arbitrary: ms) (auto split: sum.splits)

lemma from_dict_each_total:
  "\<forall>b\<in>set data. \<exists>m. from_dict b = Inr m \<Longrightarrow> \<exists>ms. from_dict_each data = Inr ms"
  by (induction data) (auto split: sum.splits)

lemma from_dict_each_Inl:
  "b \<in> set data \<Longrightarrow> from_dict b = Inl e \<Longrightarrow> \<exists>e'. from_dict_each data = Inl e'"
  by (induction data) (auto split: sum.splits)

lemma list_all2_filter_both:
  "list_all2 R xs ys \<Longrightarrow> (\<And>x y. R x y \<Longrightarrow> y \<in> set ys \<Longrightarrow> P x = Q y)
     \<Longrightarrow> list_all2 R (filter P xs) (filter Q ys)"
  by (induction xs ys rule: list_all2_induct) auto

lemma str_int_examples:
  "str_int 0 = ''0''" "str_int 1 = ''1''" "str_int 2 = ''2''" "str_int 3 = ''3''"
  "str_int 7 = ''7''" "str_int 12 = ''12''"
  by (simp_all add: str_int_def str_nat.simps digit_char_def)

lemma from_dict_record_A: "from_dict record_A = Inr mod_A"
  by (simp add: from_dict_def record_A_def mod_A_def dict_get_def py_str_small str_int_examples
           del: py_str.simps(3))

lemma from_dict_record_B: "from_dict record_B = Inr mod_B"
  by (simp add: from_dict_def record_B_def mod_B_def dict_get_def py_str_small str_int_examples
        insert_commute del: py_str.simps(3))

lemma from_dict_record_off:
  "from_dict record_off = Inr \<lparr>ModInfo.name = ''Off'', version = ''0.7.12'', is_enabled = False,
                                semver_string = ''Off-0.7.12''\<rparr>"
  by (simp add: from_dict_def record_off_def dict_get_def py_str_small str_int_examples
           del: py_str.simps(3))

lemma read_sources_only: "read_text sources_only [''sources'', ''mods.yml''] = Inr ''mods''"
  by (simp add: read_text_def node_at_def sources_only_def)

lemma record_off_broken_keys:
  "set (map fst [(''major'', SInt 2 :: scalar), (''minor'', SInt 1)]) \<noteq> {''major'', ''minor'', ''patch''}"
proof
  assume "set (map fst [(''major'', SInt 2 :: scalar), (''minor'', SInt 1)]) = {''major'', ''minor'', ''patch''}"
  then have "''patch'' \<in> set (map fst [(''major'', SInt 2 :: scalar), (''minor'', SInt 1)])"
    by simp
  then show False by simp
qed

lemma from_dict_record_off_broken: "from_dict record_off_broken = Inl AssertionError"
  using record_off_broken_keys by (simp add: from_dict_def record_off_broken_def)

lemma valid_examples:
  "valid_record record_A" "valid_record record_off" "valid_record record_B" "valid_record record_huge"
  by (simp_all add: valid_record_def record_A_def record_off_def record_B_def record_huge_def
        insert_commute)

lemma within_limit_examples:
  "record_within_limit record_A" "record_within_limit record_off" "record_within_limit record_B"
  by (simp_all add: record_within_limit_def versions_within_limit_def printable_def dict_get_def
        within_small record_A_def record_off_def record_B_def)

lemma record_huge_beyond_limit: "\<not> record_within_limit record_huge"
  by (simp add: record_within_limit_def versions_within_limit_def printable_def dict_get_def
        not_within_huge record_huge_def)

lemma from_dict_record_huge: "from_dict record_huge = Inl ValueError"
  using valid_examples(4) record_huge_beyond_limit by (rule valid_record_too_long)

text \<open>
  C1, as amended. When every record of the configuration has a string name, a version
  mapping with exactly the keys major, minor and patch, and a boolean enabled flag, and
  no integer among the three version values has more than 4300 decimal digits,
  \<^verbatim>\<open>load_sources\<close> succeeds, and what it returns is, one for one and in the order of
  the file, the parsed form of the records whose enabled flag is true.
\<close>

theorem load_sources_returns_enabled_in_order:
  assumes rd: "read_text fs [''sources'', ''mods.yml''] = Inr txt"
      and ld: "yaml_load txt = Inr data"
      and ok: "\<forall>b\<in>set data. valid_record b \<and> record_within_limit b"
  shows "\<exists>ms. load_sources yaml_load fs = Inr ms \<and>
           list_all2 (\<lambda>m b. from_dict b = Inr m) ms (filter enabled_flag data)"
proof -
  from ok have "\<forall>b\<in>set data. \<exists>m. from_dict b = Inr m"
    using valid_record_parses by blast
  then obtain ms0 where ms0: "from_dict_each data = Inr ms0"
    using from_dict_each_total by blast
  then have rel: "list_all2 (\<lambda>m b. from_dict b = Inr m) ms0 data"
    by (rule from_dict_each_Inr)
  have "list_all2 (\<lambda>m b. from_dict b = Inr m) (filter is_enabled ms0) (filter enabled_flag data)"
  proof (rule list_all2_filter_both [OF rel])
    fix m b assume "from_dict b = Inr m" and "b \<in> set data"
    with ok valid_record_parses [of b] show "is_enabled m = enabled_flag b" by auto
  qed
  moreover have "load_sources yaml_load fs = Inr (filter is_enabled ms0)"
    by (simp add: load_sources_def load_yaml_def load_yaml_data_def rd ld ms0)
  ultimately show ?thesis by blast
qed

theorem load_sources_returns_enabled_in_order_witness:
  "read_text sources_only [''sources'', ''mods.yml''] = Inr ''mods'' \<and>
   valid_record record_A \<and> valid_record record_off \<and> valid_record record_B \<and>
   record_within_limit record_A \<and> record_within_limit record_off \<and> record_within_limit record_B \<and>
   filter enabled_flag [record_A, record_off, record_B] = [record_A, record_B] \<and>
   load_sources (\<lambda>s. Inr [record_A, record_off, record_B]) sources_only = Inr [mod_A, mod_B]"
proof -
  note v = valid_examples(1-3) and l = within_limit_examples
  have f: "filter enabled_flag [record_A, record_off, record_B] = [record_A, record_B]"
    by (simp add: enabled_flag_def record_A_def record_off_def record_B_def)
  from v l have "\<forall>b\<in>set [record_A, record_off, record_B]. valid_record b \<and> record_within_limit b"
    by simp
  from load_sources_returns_enabled_in_order
         [OF read_sources_only, of "\<lambda>s. Inr [record_A, record_off, record_B]", OF refl this]
  have "\<exists>ms. load_sources (\<lambda>s. Inr [record_A, record_off, record_B]) sources_only = Inr ms \<and>
          list_all2 (\<lambda>m b. from_dict b = Inr m) ms [record_A, record_B]"
    unfolding f .
  then have "load_sources (\<lambda>s. Inr [record_A, record_off, record_B]) sources_only = Inr [mod_A, mod_B]"
    by (auto simp: list_all2_Cons2 from_dict_record_A from_dict_record_B)
  with v l f read_sources_only show ?thesis by simp
qed

text \<open>
  A configuration of one well-formed, enabled record whose major version is \<open>10 ^ 4300\<close>,
  a number of 4301 digits: \<^verbatim>\<open>load_sources\<close> returns nothing, the f-string of
  \<^verbatim>\<open>format_version\<close> raises \<^verbatim>\<open>ValueError\<close>.
\<close>

theorem load_sources_value_error:
  "max_str_digits = 4300 \<and>
   map_of record_huge ''versionNumber'' =
     Some (YMapping [(''major'', SInt (10 ^ max_str_digits)), (''minor'', SInt 0), (''patch'', SInt 0)]) \<and>
   read_text sources_only [''sources'', ''mods.yml''] = Inr ''mods'' \<and>
   valid_record record_huge \<and>
   load_sources yaml_huge sources_only = Inl ValueError"
proof -
  have "max_str_digits = 4300" by (simp add: max_str_digits_def)
  moreover have "map_of record_huge ''versionNumber'' =
     Some (YMapping [(''major'', SInt (10 ^ max_str_digits)), (''minor'', SInt 0), (''patch'', SInt 0)])"
    by (simp add: record_huge_def)
  moreover have "load_sources yaml_huge sources_only = Inl ValueError"
    by (simp add: read_sources_only load_sources_def load_yaml_def load_yaml_data_def
          yaml_huge_def from_dict_record_huge)
  ultimately show ?thesis using read_sources_only valid_examples(4) by blast
qed


text \<open>
  C6, as amended. A record that lacks one of the keys name, versionNumber and enabled, or
  whose versionNumber is not a mapping, or whose version mapping has a key set other than
  major, minor and patch, or whose enabled value is neither of the two booleans, is never
  parsed: \<^verbatim>\<open>from_dict\<close> raises. The error is an assertion error or a key error, with
  two exceptions, both raised by \<^verbatim>\<open>format_version\<close> once the name has passed as a
  string: a versionNumber that is not a mapping gives the attribute error of
  \<^verbatim>\<open>.keys()\<close>, and a mapping with the right keys and an integer of more than 4300
  digits gives the value error of the f-string.
\<close>

theorem from_dict_rejects_malformed:
  assumes "map_of b ''name'' = None \<or> map_of b ''versionNumber'' = None \<or> map_of b ''enabled'' = None
           \<or> (\<exists>v. map_of b ''versionNumber'' = Some v \<and> (\<forall>vd. v \<noteq> YMapping vd))
           \<or> (\<exists>vd. map_of b ''versionNumber'' = Some (YMapping vd) \<and>
                    set (map fst vd) \<noteq> {''major'', ''minor'', ''patch''})
           \<or> (\<exists>v. map_of b ''enabled'' = Some v \<and> v \<noteq> YScalar (SBool True) \<and> v \<noteq> YScalar (SBool False))"
  shows "\<exists>e. from_dict b = Inl e \<and>
           (if (\<exists>n. map_of b ''name'' = Some (YScalar (SStr n))) \<and>
               (\<exists>v. map_of b ''versionNumber'' = Some v \<and> (\<forall>vd. v \<noteq> YMapping vd))
            then e = AttributeError
            else if (\<exists>n. map_of b ''name'' = Some (YScalar (SStr n))) \<and>
                    (\<exists>vd. map_of b ''versionNumber'' = Some (YMapping vd) \<and>
                          set (map fst vd) = {''major'', ''minor'', ''patch''} \<and>
                          \<not> versions_within_limit vd)
            then e = ValueError
            else e = AssertionError \<or> (\<exists>k. e = KeyError k))"
proof (cases "map_of b ''name''")
  case None
  then show ?thesis by (simp add: from_dict_def)
next
  case (Some nm)
  show ?thesis
  proof (cases "\<exists>n. nm = YScalar (SStr n)")
    case False
    then have "from_dict b = Inl AssertionError"
      using Some by (auto simp: from_dict_def split: yaml_value.splits scalar.splits)
    then show ?thesis using Some False by auto
  next
    case True
    then obtain n where nm: "nm = YScalar (SStr n)" by blast
    show ?thesis
    proof (cases "map_of b ''versionNumber''")
      case None
      then show ?thesis using Some nm by (simp add: from_dict_def)
    next
      case vsome: (Some v)
      show ?thesis
      proof (cases v)
        case (YScalar x)
        then show ?thesis using Some nm vsome by (simp add: from_dict_def)
      next
        case (YSequence xs)
        then show ?thesis using Some nm vsome by (simp add: from_dict_def)
      next
        case (YMapping vd)
        show ?thesis
        proof (cases "set (map fst vd) = {''major'', ''minor'', ''patch''}")
          case False
          then show ?thesis using Some nm vsome YMapping by (simp add: from_dict_def)
        next
          case keys: True
          show ?thesis
          proof (cases "versions_within_limit vd")
            case False
            from format_version_too_long [OF keys False]
            have "from_dict b = Inl ValueError"
              using Some nm vsome YMapping by (simp add: from_dict_def)
            then show ?thesis using Some nm vsome YMapping keys False by simp
          next
            case lim: True
            from format_version_ok [OF keys lim] obtain ver
              where ver: "format_version (YMapping vd) = Inr ver" by blast
            show ?thesis
            proof (cases "map_of b ''enabled''")
              case None
              then show ?thesis using Some nm vsome YMapping keys lim ver
                by (simp add: from_dict_def)
            next
              case esome: (Some en)
              with assms Some vsome YMapping keys
              have "\<forall>x. en \<noteq> YScalar (SBool x)"
                by (metis (full_types) option.distinct(1) option.inject yaml_value.inject(2))
              then have "from_dict b = Inl AssertionError"
                using Some nm vsome YMapping ver esome
                by (auto simp: from_dict_def split: yaml_value.splits scalar.splits)
              then show ?thesis using Some nm vsome YMapping keys lim by simp
            qed
          qed
        qed
      qed
    qed
  qed
qed

theorem from_dict_rejects_malformed_witness:
  "map_of record_off_broken ''versionNumber'' = Some (YMapping [(''major'', SInt 2), (''minor'', SInt 1)]) \<and>
   set (map fst [(''major'', SInt 2 :: scalar), (''minor'', SInt 1)]) \<noteq> {''major'', ''minor'', ''patch''} \<and>
   from_dict record_off_broken = Inl AssertionError"
proof -
  have m: "map_of record_off_broken ''versionNumber'' = Some (YMapping [(''major'', SInt 2), (''minor'', SInt 1)])"
    by (simp add: record_off_broken_def)
  note k = record_off_broken_keys
  from m k have "map_of record_off_broken ''name'' = None \<or>
      map_of record_off_broken ''versionNumber'' = None \<or>
      map_of record_off_broken ''enabled'' = None \<or>
      (\<exists>v. map_of record_off_broken ''versionNumber'' = Some v \<and> (\<forall>vd. v \<noteq> YMapping vd)) \<or>
      (\<exists>vd. map_of record_off_broken ''versionNumber'' = Some (YMapping vd) \<and>
            set (map fst vd) \<noteq> {''major'', ''minor'', ''patch''}) \<or>
      (\<exists>v. map_of record_off_broken ''enabled'' = Some v \<and> v \<noteq> YScalar (SBool True) \<and>
           v \<noteq> YScalar (SBool False))"
    by blast
  from from_dict_rejects_malformed [OF this]
  have "\<exists>e. from_dict record_off_broken = Inl e" by blast
  then have "from_dict record_off_broken = Inl AssertionError"
    by (simp add: from_dict_record_off_broken)
  with m k show ?thesis by blast
qed

text \<open>
  The record \<^verbatim>\<open>{name: "A", versionNumber: "1.0"}\<close> lacks the key enabled, and parsing
  it ends in an attribute error, which is neither an assertion nor a lookup error.
\<close>

theorem from_dict_attribute_error:
  "map_of [(''name'', YScalar (SStr ''A'')), (''versionNumber'', YScalar (SStr ''1.0''))] ''enabled'' = None \<and>
   from_dict [(''name'', YScalar (SStr ''A'')), (''versionNumber'', YScalar (SStr ''1.0''))] = Inl AttributeError"
  by (simp add: from_dict_def)

text \<open>
  C7. For a record with name \<open>n\<close> and the integers \<open>ma\<close>, \<open>mi\<close>, \<open>pa\<close> as major, minor and
  patch, every \<^verbatim>\<open>ModInfo\<close> that \<^verbatim>\<open>from_dict\<close> computes has as its qualified id the
  name, a hyphen, and the version string: three strings separated by dots that are the
  decimal numerals of \<open>ma\<close>, \<open>mi\<close> and \<open>pa\<close>, which means digits only, no leading zero,
  no padding, a minus sign for a negative number. One is computed exactly when the three
  numbers are within Python's
  limit of 4300 digits.
\<close>

theorem qualified_id_format:
  assumes nm: "map_of b ''name'' = Some (YScalar (SStr n))"
      and vn: "map_of b ''versionNumber'' = Some (YMapping vd)"
      and ks: "set (map fst vd) = {''major'', ''minor'', ''patch''}"
      and ma: "map_of vd ''major'' = Some (SInt ma)"
      and mi: "map_of vd ''minor'' = Some (SInt mi)"
      and pa: "map_of vd ''patch'' = Some (SInt pa)"
      and en: "map_of b ''enabled'' = Some (YScalar (SBool en))"
  shows "(\<forall>m. from_dict b = Inr m \<longrightarrow>
            (\<exists>x y z. semver_string m = n @ ''-'' @ x @ ''.'' @ y @ ''.'' @ z \<and>
               version m = x @ ''.'' @ y @ ''.'' @ z \<and> ModInfo.name m = n \<and>
               decimal_numeral x ma \<and> decimal_numeral y mi \<and> decimal_numeral z pa)) \<and>
         ((\<exists>m. from_dict b = Inr m) \<longleftrightarrow>
            within_str_limit ma \<and> within_str_limit mi \<and> within_str_limit pa)"
proof (cases "within_str_limit ma \<and> within_str_limit mi \<and> within_str_limit pa")
  case True
  then have "format_version (YMapping vd) = Inr (str_int ma @ ''.'' @ str_int mi @ ''.'' @ str_int pa)"
    using ks by (simp add: dict_get_def ma mi pa py_str_SInt del: py_str.simps(3))
  then have "from_dict b = Inr \<lparr>ModInfo.name = n,
        version = str_int ma @ ''.'' @ str_int mi @ ''.'' @ str_int pa, is_enabled = en,
        semver_string = n @ ''-'' @ str_int ma @ ''.'' @ str_int mi @ ''.'' @ str_int pa\<rparr>"
    by (simp add: from_dict_def nm vn en)
  with True decimal_numeral_str_int [of ma] decimal_numeral_str_int [of mi]
    decimal_numeral_str_int [of pa]
  show ?thesis by auto
next
  case False
  then have "\<not> versions_within_limit vd"
    by (auto simp: versions_within_limit_def printable_def dict_get_def ma mi pa)
  from format_version_too_long [OF ks this] have "from_dict b = Inl ValueError"
    by (simp add: from_dict_def nm vn)
  with False show ?thesis by simp
qed

theorem qualified_id_format_witness:
  "within_str_limit 1 \<and> within_str_limit 2 \<and> within_str_limit 3 \<and>
   from_dict [(''name'', YScalar (SStr ''Foo'')),
              (''versionNumber'', YMapping [(''major'', SInt 1), (''minor'', SInt 2), (''patch'', SInt 3)]),
              (''enabled'', YScalar (SBool True))]
   = Inr \<lparr>ModInfo.name = ''Foo'', version = ''1.2.3'', is_enabled = True, semver_string = ''Foo-1.2.3''\<rparr> \<and>
   within_str_limit 0 \<and> within_str_limit 7 \<and> within_str_limit 12 \<and>
   from_dict record_off
   = Inr \<lparr>ModInfo.name = ''Off'', version = ''0.7.12'', is_enabled = False, semver_string = ''Off-0.7.12''\<rparr>"
proof -
  let ?foo = "[(''name'', YScalar (SStr ''Foo'')),
              (''versionNumber'', YMapping [(''major'', SInt 1), (''minor'', SInt 2), (''patch'', SInt 3)]),
              (''enabled'', YScalar (SBool True))]"
  have w: "within_str_limit 1" "within_str_limit 2" "within_str_limit 3"
          "within_str_limit 0" "within_str_limit 7" "within_str_limit 12"
    by (simp_all add: within_small)
  have "(\<forall>m. from_dict ?foo = Inr m \<longrightarrow>
            (\<exists>x y z. semver_string m = ''Foo'' @ ''-'' @ x @ ''.'' @ y @ ''.'' @ z \<and>
               version m = x @ ''.'' @ y @ ''.'' @ z \<and> ModInfo.name m = ''Foo'' \<and>
               decimal_numeral x 1 \<and> decimal_numeral y 2 \<and> decimal_numeral z 3)) \<and>
        ((\<exists>m. from_dict ?foo = Inr m) \<longleftrightarrow>
            within_str_limit 1 \<and> within_str_limit 2 \<and> within_str_limit 3)"
    by (rule qualified_id_format [where vd = "[(''major'', SInt 1), (''minor'', SInt 2), (''patch'', SInt 3)]"
          and en = True]) simp_all
  with w obtain m x y z where m: "from_dict ?foo = Inr m"
    and sv: "semver_string m = ''Foo'' @ ''-'' @ x @ ''.'' @ y @ ''.'' @ z"
    and num: "decimal_numeral x 1" "decimal_numeral y 2" "decimal_numeral z 3"
    by blast
  from num have "x = ''1''" "y = ''2''" "z = ''3''"
    by (auto dest!: decimal_numeral_unique simp: str_int_examples)
  with sv have "semver_string m = ''Foo-1.2.3''" by simp
  moreover from m have "ModInfo.name m = ''Foo''" "version m = ''1.2.3''" "is_enabled m"
    by (auto simp: from_dict_def dict_get_def py_str_small str_int_examples
             simp del: py_str.simps(3))
  ultimately have foo: "from_dict ?foo =
      Inr \<lparr>ModInfo.name = ''Foo'', version = ''1.2.3'', is_enabled = True, semver_string = ''Foo-1.2.3''\<rparr>"
    using m by (cases m) simp
  have "(\<forall>m. from_dict record_off = Inr m \<longrightarrow>
            (\<exists>x y z. semver_string m = ''Off'' @ ''-'' @ x @ ''.'' @ y @ ''.'' @ z \<and>
               version m = x @ ''.'' @ y @ ''.'' @ z \<and> ModInfo.name m = ''Off'' \<and>
               decimal_numeral x 0 \<and> decimal_numeral y 7 \<and> decimal_numeral z 12)) \<and>
        ((\<exists>m. from_dict record_off = Inr m) \<longleftrightarrow>
            within_str_limit 0 \<and> within_str_limit 7 \<and> within_str_limit 12)"
    by (rule qualified_id_format [where vd = "[(''major'', SInt 0), (''minor'', SInt 7), (''patch'', SInt 12)]"
          and en = False]) (simp_all add: record_off_def)
  with w obtain m' x' y' z' where m': "from_dict record_off = Inr m'"
    and sv': "semver_string m' = ''Off'' @ ''-'' @ x' @ ''.'' @ y' @ ''.'' @ z'"
    and num': "decimal_numeral x' 0" "decimal_numeral y' 7" "decimal_numeral z' 12"
    by blast
  from num' have "x' = ''0''" "y' = ''7''" "z' = ''12''"
    by (auto dest!: decimal_numeral_unique simp: str_int_examples)
  with sv' have "semver_string m' = ''Off-0.7.12''" by simp
  with m' from_dict_record_off have off: "from_dict record_off =
      Inr \<lparr>ModInfo.name = ''Off'', version = ''0.7.12'', is_enabled = False, semver_string = ''Off-0.7.12''\<rparr>"
    by simp
  from w foo off show ?thesis by simp
qed

text \<open>
  C10. Every record is parsed before the disabled ones are dropped: one record that
  \<^verbatim>\<open>from_dict\<close> rejects, enabled or not, makes \<^verbatim>\<open>load_sources\<close> fail.
\<close>

theorem load_sources_validates_every_record:
  assumes rd: "read_text fs [''sources'', ''mods.yml''] = Inr txt"
      and ld: "yaml_load txt = Inr data"
      and b: "b \<in> set data" and bad: "from_dict b = Inl e"
  shows "\<exists>e'. load_sources yaml_load fs = Inl e'"
  using from_dict_each_Inl [OF b bad]
  by (auto simp: load_sources_def load_yaml_def load_yaml_data_def rd ld)

theorem load_sources_validates_every_record_witness:
  "read_text sources_only [''sources'', ''mods.yml''] = Inr ''mods'' \<and>
   from_dict record_A = Inr mod_A \<and>
   map_of record_off_broken ''enabled'' = Some (YScalar (SBool False)) \<and>
   from_dict record_off_broken = Inl AssertionError \<and>
   load_sources (\<lambda>s. Inr [record_A, record_off_broken]) sources_only = Inl AssertionError"
proof -
  note bad = from_dict_record_off_broken
  have "record_off_broken \<in> set [record_A, record_off_broken]" by simp
  from load_sources_validates_every_record
         [OF read_sources_only, of "\<lambda>s. Inr [record_A, record_off_broken]", OF refl this bad]
  have "load_sources (\<lambda>s. Inr [record_A, record_off_broken]) sources_only = Inl AssertionError"
    by (simp add: load_sources_def load_yaml_def load_yaml_data_def read_sources_only
          from_dict_record_A bad)
  moreover have "map_of record_off_broken ''enabled'' = Some (YScalar (SBool False))"
    by (simp add: record_off_broken_def)
  ultimately show ?thesis using bad read_sources_only from_dict_record_A by simp
qed

section \<open>The deployment directory and the manifest\<close>

lemma deployment_path_of_eq:
  "deployment_path_of ts = [''deployment'', ''sivad_'' @ strftime_dmy ts]"
  by (simp add: deployment_path_of_def path_join_def DEPLOY_DIR_def DEPLOY_NAME_SLUG_def)

lemma strftime_nov3: "strftime_dmy nov3 = ''03-11-26''"
  by (simp add: strftime_dmy_def nov3_def pad2_def str_nat.simps digit_char_def)

lemma deployment_path_nov3: "deployment_path_of nov3 = [''deployment'', ''sivad_03-11-26'']"
  by (simp add: deployment_path_of_eq strftime_nov3)

text \<open>
  C3. When the deployment path is a regular file, \<^verbatim>\<open>init_deployment\<close> raises the
  runtime error of \<^verbatim>\<open>_refresh\<close> and the filesystem is what it was: the file is neither
  deleted nor changed, and nothing else is touched.
\<close>

theorem init_deployment_refuses_regular_file:
  "node_at fs (deployment_path_of ts) = Some (File c) \<Longrightarrow>
     init_deployment ts fs = (Inl RuntimeError, fs)"
  by (simp add: init_deployment_def refresh_def is_file_def)

theorem init_deployment_refuses_regular_file_witness:
  "node_at blocked_fs (deployment_path_of nov3) = Some (File ''notes'') \<and>
   init_deployment nov3 blocked_fs = (Inl RuntimeError, blocked_fs)"
proof -
  have n: "node_at blocked_fs (deployment_path_of nov3) = Some (File ''notes'')"
    by (simp add: deployment_path_nov3 node_at_def blocked_fs_def)
  from init_deployment_refuses_regular_file [OF n] n show ?thesis by simp
qed

lemma refresh_existing_dir:
  assumes "node_at fs d = Some Dir" and "d \<noteq> []" and "refresh d fs = (Inr u, fs1)"
  shows "fs1 = (\<lambda>q. if prefix d q then None else fs q)(d \<mapsto> Dir)"
  using assms
  by (simp add: refresh_def is_file_def exists_path_def rmtree_def mkdir_def node_at_def
           split: if_splits option.splits node.splits)

lemma copy_to_fresh:
  assumes "node_at fs dst = None" and "copy fs src dst = Inr fs'"
  shows "\<exists>c. node_at fs src = Some (File c) \<and> fs' = fs(dst \<mapsto> File c)"
  using assms
  by (auto simp: copy_def write_text_def Let_def split: option.splits node.splits if_splits)

lemma static_paths:
  "path_join TEMPLATE_DIR ''icon.png'' = [''template'', ''icon.png'']"
  "path_join TEMPLATE_DIR ''README.md'' = [''template'', ''README.md'']"
  "path_join d ''icon.png'' = d @ [''icon.png'']"
  "path_join d ''README.md'' = d @ [''README.md'']"
  by (simp_all add: path_join_def TEMPLATE_DIR_def)

lemma copy_template_files_steps:
  assumes "copy_template_files d fs1 = (Inr u, fs')"
  shows "\<exists>fs2. copy fs1 [''template'', ''icon.png''] (d @ [''icon.png'']) = Inr fs2 \<and>
               copy fs2 [''template'', ''README.md''] (d @ [''README.md'']) = Inr fs'"
proof (cases "copy fs1 [''template'', ''icon.png''] (d @ [''icon.png''])")
  case (Inl e)
  with assms show ?thesis
    by (simp add: copy_template_files_def STATIC_TEMPLATE_FILES_def static_paths TEMPLATE_DIR_def)
next
  case (Inr fs2)
  with assms show ?thesis
    by (cases "copy fs2 [''template'', ''README.md''] (d @ [''README.md''])")
       (simp_all add: copy_template_files_def STATIC_TEMPLATE_FILES_def static_paths TEMPLATE_DIR_def)
qed

lemma init_deployment_steps:
  assumes run: "init_deployment ts fs = (Inr d, fs')"
  shows "d = deployment_path_of ts \<and>
         (\<exists>fs1 fs2. refresh d fs = (Inr (), fs1) \<and>
            copy fs1 [''template'', ''icon.png''] (d @ [''icon.png'']) = Inr fs2 \<and>
            copy fs2 [''template'', ''README.md''] (d @ [''README.md'']) = Inr fs')"
proof -
  obtain r fs1 where rf: "refresh (deployment_path_of ts) fs = (r, fs1)"
    by (cases "refresh (deployment_path_of ts) fs")
  obtain r2 fs2 where cp: "copy_template_files (deployment_path_of ts) fs1 = (r2, fs2)"
    by (cases "copy_template_files (deployment_path_of ts) fs1")
  from run rf cp have "r = Inr () \<and> r2 = Inr () \<and> d = deployment_path_of ts \<and> fs2 = fs'"
    by (cases r; cases r2) (simp_all add: init_deployment_def)
  with rf cp copy_template_files_steps [of d fs1 "()" fs'] show ?thesis by auto
qed

text \<open>
  C5. When the deployment path is a directory, whatever it holds, and
  \<^verbatim>\<open>init_deployment\<close> succeeds, the directory exists again and the entries below it
  are exactly \<^verbatim>\<open>icon.png\<close> and \<^verbatim>\<open>README.md\<close>, regular files with the text of the
  template's files.
\<close>

theorem init_deployment_clears_stale_entries:
  assumes dir: "node_at fs (deployment_path_of ts) = Some Dir"
      and run: "init_deployment ts fs = (Inr d, fs')"
  shows "d = deployment_path_of ts \<and> fs' d = Some Dir \<and>
         (\<forall>q. q \<noteq> [] \<longrightarrow> (fs' (d @ q) \<noteq> None) = (q = [''icon.png''] \<or> q = [''README.md''])) \<and>
         (\<exists>c. read_text fs [''template'', ''icon.png''] = Inr c \<and>
              fs' (d @ [''icon.png'']) = Some (File c)) \<and>
         (\<exists>c. read_text fs [''template'', ''README.md''] = Inr c \<and>
              fs' (d @ [''README.md'']) = Some (File c))"
proof -
  from init_deployment_steps [OF run] obtain fs1 fs2
    where d: "d = deployment_path_of ts"
      and r: "refresh d fs = (Inr (), fs1)"
      and c1: "copy fs1 [''template'', ''icon.png''] (d @ [''icon.png'']) = Inr fs2"
      and c2: "copy fs2 [''template'', ''README.md''] (d @ [''README.md'']) = Inr fs'"
    by blast
  have shape: "d = [''deployment'', ''sivad_'' @ strftime_dmy ts]"
    by (simp add: d deployment_path_of_eq)
  then have ne: "d \<noteq> []" by simp
  have fs1: "fs1 = (\<lambda>q. if prefix d q then None else fs q)(d \<mapsto> Dir)"
    using dir r ne by (intro refresh_existing_dir [of fs d "()"]) (simp_all add: d)
  have t1: "node_at fs1 [''template'', ''icon.png''] = fs [''template'', ''icon.png'']"
   and t2: "node_at fs1 [''template'', ''README.md''] = fs [''template'', ''README.md'']"
    by (simp_all add: fs1 node_at_def shape)
  have "node_at fs1 (d @ [''icon.png'']) = None"
    by (simp add: fs1 node_at_def)
  from copy_to_fresh [OF this c1] obtain a
    where a: "fs [''template'', ''icon.png''] = Some (File a)"
      and fs2: "fs2 = fs1(d @ [''icon.png''] \<mapsto> File a)"
    using t1 by auto
  have "node_at fs2 (d @ [''README.md'']) = None"
    by (simp add: fs2 fs1 node_at_def)
  from copy_to_fresh [OF this c2] obtain b
    where b: "node_at fs2 [''template'', ''README.md''] = Some (File b)"
      and fs': "fs' = fs2(d @ [''README.md''] \<mapsto> File b)"
    by auto
  from b have b': "fs [''template'', ''README.md''] = Some (File b)"
    by (simp add: fs2 fs1 node_at_def shape)
  have "fs' d = Some Dir"
    by (simp add: fs' fs2 fs1)
  moreover have "\<forall>q. q \<noteq> [] \<longrightarrow> (fs' (d @ q) \<noteq> None) = (q = [''icon.png''] \<or> q = [''README.md''])"
    by (simp add: fs' fs2 fs1)
  moreover have "read_text fs [''template'', ''icon.png''] = Inr a \<and>
      fs' (d @ [''icon.png'']) = Some (File a)"
    by (simp add: read_text_def node_at_def a fs' fs2)
  moreover have "read_text fs [''template'', ''README.md''] = Inr b \<and>
      fs' (d @ [''README.md'']) = Some (File b)"
    by (simp add: read_text_def node_at_def b' fs')
  ultimately show ?thesis using d by blast
qed

lemma init_deployment_stale: "init_deployment nov3 stale_fs = (Inr [''deployment'', ''sivad_03-11-26''], fresh_fs)"
proof -
  have "snd (init_deployment nov3 stale_fs) = fresh_fs"
    by (rule ext)
       (simp add: init_deployment_def deployment_path_nov3 refresh_def is_file_def exists_path_def
          rmtree_def mkdir_def node_at_def stale_fs_def fresh_fs_def project_fs_def copy_template_files_def
          STATIC_TEMPLATE_FILES_def TEMPLATE_DIR_def path_join_def copy_def write_text_def
          path_name_def Let_def)
  moreover have "fst (init_deployment nov3 stale_fs) = Inr [''deployment'', ''sivad_03-11-26'']"
    by (simp add: init_deployment_def deployment_path_nov3 refresh_def is_file_def exists_path_def
          rmtree_def mkdir_def node_at_def stale_fs_def project_fs_def copy_template_files_def
          STATIC_TEMPLATE_FILES_def TEMPLATE_DIR_def path_join_def copy_def write_text_def
          path_name_def Let_def)
  ultimately show ?thesis by (simp add: prod_eq_iff)
qed

lemma getitem_object:
  "getitem (JObject d) k = (case map_of d k of None \<Rightarrow> Inl (KeyError k) | Some v \<Rightarrow> Inr v)"
  by (simp add: getitem_def)

text \<open>
  C4. When the template's \<^verbatim>\<open>dependencies\<close> is a list with at least one element,
  \<^verbatim>\<open>populate_dependencies\<close> fails, with the assertion error or with the key error of a
  field read before it, and the filesystem is unchanged: no manifest has been written.
\<close>

theorem manifest_rejects_template_with_dependencies:
  assumes rd: "read_text fs MANIFEST_TEMPLATE_PATH = Inr txt"
      and ld: "json_loads txt = Inr (JObject tpl)"
      and deps: "map_of tpl ''dependencies'' = Some (JArray (x # xs))"
  shows "\<exists>e. populate_dependencies json_loads json_dumps mods deploy_dir fs = (Inl e, fs) \<and>
             (e = AssertionError \<or> (\<exists>k. e = KeyError k))"
proof -
  have "\<exists>e. from_template_path json_loads MANIFEST_TEMPLATE_PATH fs = Inl e \<and>
            (e = AssertionError \<or> (\<exists>k. e = KeyError k))"
    by (cases "map_of tpl ''name''"; cases "map_of tpl ''version_number''";
        cases "map_of tpl ''website_url''"; cases "map_of tpl ''description''")
       (simp_all add: from_template_path_def rd ld getitem_object deps)
  then show ?thesis
    by (auto simp: populate_dependencies_def write_manifest_json_def read_manifest_template_def)
qed

text \<open>
  C2. With a template whose \<^verbatim>\<open>dependencies\<close> is the empty list, the manifest built for
  the mods has their \<^verbatim>\<open>semver_string\<close>s, in order, as dependencies and the template's
  values in the other four fields; the file written holds \<^verbatim>\<open>json.dumps\<close> of exactly
  that object.
\<close>

theorem manifest_written_from_template:
  assumes rd: "read_text fs MANIFEST_TEMPLATE_PATH = Inr txt"
      and ld: "json_loads txt = Inr (JObject tpl)"
      and nm: "map_of tpl ''name'' = Some n"
      and vn: "map_of tpl ''version_number'' = Some v"
      and url: "map_of tpl ''website_url'' = Some w"
      and descr: "map_of tpl ''description'' = Some ds"
      and deps: "map_of tpl ''dependencies'' = Some (JArray [])"
      and dir: "node_at fs (butlast manifest_path) = Some Dir"
      and nodir: "node_at fs manifest_path \<noteq> Some Dir"
  shows "\<exists>t. read_manifest_template json_loads fs = Inr t \<and>
           dependencies (with_deps t mods) = map semver_string mods \<and>
           Manifest.name (with_deps t mods) = n \<and> version_number (with_deps t mods) = v \<and>
           website_url (with_deps t mods) = w \<and> description (with_deps t mods) = ds \<and>
           write_manifest_json json_loads json_dumps mods manifest_path fs =
             (Inr (), fs(manifest_path \<mapsto> File (json_dumps (JObject
                [(''name'', n), (''version_number'', v), (''website_url'', w), (''description'', ds),
                 (''dependencies'', JArray (map JStr (map semver_string mods)))]))))"
proof -
  have t: "read_manifest_template json_loads fs =
             Inr \<lparr>Manifest.name = n, version_number = v, website_url = w, description = ds,
                  dependencies = []\<rparr>"
    by (simp add: read_manifest_template_def from_template_path_def rd ld getitem_object
          nm vn url descr deps)
  have w: "write_text fs manifest_path s = Inr (fs(manifest_path \<mapsto> File s))" for s
    using dir nodir
    by (cases "node_at fs manifest_path") (auto simp: write_text_def split: node.splits)
  show ?thesis
    by (simp add: t with_deps_def write_manifest_json_def write_to_def to_json_def w)
qed

theorem init_deployment_clears_stale_entries_witness:
  "node_at stale_fs (deployment_path_of nov3) = Some Dir \<and>
   stale_fs ([''deployment'', ''sivad_03-11-26''] @ [''cache'', ''x.tmp'']) = Some (File ''junk'') \<and>
   init_deployment nov3 stale_fs = (Inr [''deployment'', ''sivad_03-11-26''], fresh_fs) \<and>
   fresh_fs ([''deployment'', ''sivad_03-11-26''] @ [''cache'', ''x.tmp'']) = None \<and>
   fresh_fs ([''deployment'', ''sivad_03-11-26''] @ [''manifest.json'']) = None \<and>
   fresh_fs ([''deployment'', ''sivad_03-11-26''] @ [''icon.png'']) = Some (File ''PNG'')"
proof -
  have n: "node_at stale_fs (deployment_path_of nov3) = Some Dir"
    by (simp add: deployment_path_nov3 node_at_def stale_fs_def)
  have j: "stale_fs ([''deployment'', ''sivad_03-11-26''] @ [''cache'', ''x.tmp'']) = Some (File ''junk'')"
    by (simp add: stale_fs_def)
  from init_deployment_clears_stale_entries [OF n init_deployment_stale]
  have only: "\<forall>q. q \<noteq> [] \<longrightarrow>
      (fresh_fs ([''deployment'', ''sivad_03-11-26''] @ q) \<noteq> None) =
      (q = [''icon.png''] \<or> q = [''README.md''])"
    by blast
  from only [rule_format, of "[''cache'', ''x.tmp'']"]
  have g1: "fresh_fs ([''deployment'', ''sivad_03-11-26''] @ [''cache'', ''x.tmp'']) = None"
    by simp
  from only [rule_format, of "[''manifest.json'']"]
  have g2: "fresh_fs ([''deployment'', ''sivad_03-11-26''] @ [''manifest.json'']) = None"
    by simp
  have "fresh_fs ([''deployment'', ''sivad_03-11-26''] @ [''icon.png'']) = Some (File ''PNG'')"
    by (simp add: fresh_fs_def)
  with g1 g2 have "fresh_fs ([''deployment'', ''sivad_03-11-26''] @ [''cache'', ''x.tmp'']) = None \<and>
        fresh_fs ([''deployment'', ''sivad_03-11-26''] @ [''manifest.json'']) = None \<and>
        fresh_fs ([''deployment'', ''sivad_03-11-26''] @ [''icon.png'']) = Some (File ''PNG'')"
    by blast
  with n j init_deployment_stale show ?thesis by simp
qed

lemma read_template_fresh: "read_text fresh_fs MANIFEST_TEMPLATE_PATH = Inr ''tpl''"
  by (simp add: read_text_def node_at_def fresh_fs_def project_fs_def MANIFEST_TEMPLATE_PATH_def
        TEMPLATE_DIR_def path_join_def)

theorem manifest_rejects_template_with_dependencies_witness:
  "read_text fresh_fs MANIFEST_TEMPLATE_PATH = Inr ''tpl'' \<and>
   map_of bad_template ''dependencies'' = Some (JArray [JStr ''X-0.0.1'']) \<and>
   populate_dependencies (\<lambda>s. Inr (JObject bad_template)) plain_dumps [mod_A, mod_B]
     [''deployment'', ''sivad_03-11-26''] fresh_fs = (Inl AssertionError, fresh_fs)"
proof -
  have d: "map_of bad_template ''dependencies'' = Some (JArray [JStr ''X-0.0.1''])"
    by (simp add: bad_template_def)
  from manifest_rejects_template_with_dependencies
         [where json_loads = "\<lambda>s. Inr (JObject bad_template)" and json_dumps = plain_dumps
            and mods = "[mod_A, mod_B]" and deploy_dir = "[''deployment'', ''sivad_03-11-26'']",
          OF read_template_fresh refl d]
  obtain e where
    "populate_dependencies (\<lambda>s. Inr (JObject bad_template)) plain_dumps [mod_A, mod_B]
       [''deployment'', ''sivad_03-11-26''] fresh_fs = (Inl e, fresh_fs)"
    by blast
  moreover have "fst (populate_dependencies (\<lambda>s. Inr (JObject bad_template)) plain_dumps [mod_A, mod_B]
       [''deployment'', ''sivad_03-11-26''] fresh_fs) = Inl AssertionError"
    by (simp add: populate_dependencies_def write_manifest_json_def read_manifest_template_def
          from_template_path_def read_template_fresh getitem_object bad_template_def)
  ultimately show ?thesis using d read_template_fresh by simp
qed

theorem manifest_written_from_template_witness:
  "read_text fresh_fs MANIFEST_TEMPLATE_PATH = Inr ''tpl'' \<and>
   map_of good_template ''dependencies'' = Some (JArray []) \<and>
   node_at fresh_fs [''deployment'', ''sivad_03-11-26''] = Some Dir \<and>
   semver_string mod_A = ''A-1.0.0'' \<and> semver_string mod_B = ''B-2.1.0'' \<and>
   write_manifest_json (\<lambda>s. Inr (JObject good_template)) plain_dumps [mod_A, mod_B]
     [''deployment'', ''sivad_03-11-26'', ''manifest.json''] fresh_fs =
   (Inr (), fresh_fs([''deployment'', ''sivad_03-11-26'', ''manifest.json''] \<mapsto>
      File (plain_dumps (JObject
        [(''name'', JStr ''sivad''), (''version_number'', JStr ''1.0.0''),
         (''website_url'', JStr ''example.org''), (''description'', JStr ''pack''),
         (''dependencies'', JArray [JStr ''A-1.0.0'', JStr ''B-2.1.0''])]))))"
proof -
  have g: "map_of good_template ''name'' = Some (JStr ''sivad'')"
          "map_of good_template ''version_number'' = Some (JStr ''1.0.0'')"
          "map_of good_template ''website_url'' = Some (JStr ''example.org'')"
          "map_of good_template ''description'' = Some (JStr ''pack'')"
          "map_of good_template ''dependencies'' = Some (JArray [])"
    by (simp_all add: good_template_def)
  have dir: "node_at fresh_fs (butlast [''deployment'', ''sivad_03-11-26'', ''manifest.json'']) = Some Dir"
    by (simp add: node_at_def fresh_fs_def)
  have nodir: "node_at fresh_fs [''deployment'', ''sivad_03-11-26'', ''manifest.json''] \<noteq> Some Dir"
    by (simp add: node_at_def fresh_fs_def project_fs_def)
  have sv: "semver_string mod_A = ''A-1.0.0''" "semver_string mod_B = ''B-2.1.0''"
    by (simp_all add: mod_A_def mod_B_def)
  from manifest_written_from_template
         [where json_loads = "\<lambda>s. Inr (JObject good_template)" and json_dumps = plain_dumps
            and mods = "[mod_A, mod_B]", OF read_template_fresh refl g dir nodir]
  have "write_manifest_json (\<lambda>s. Inr (JObject good_template)) plain_dumps [mod_A, mod_B]
     [''deployment'', ''sivad_03-11-26'', ''manifest.json''] fresh_fs =
   (Inr (), fresh_fs([''deployment'', ''sivad_03-11-26'', ''manifest.json''] \<mapsto>
      File (plain_dumps (JObject
        [(''name'', JStr ''sivad''), (''version_number'', JStr ''1.0.0''),
         (''website_url'', JStr ''example.org''), (''description'', JStr ''pack''),
         (''dependencies'', JArray [JStr ''A-1.0.0'', JStr ''B-2.1.0''])]))))"
    by (auto simp: sv simp del: plain_dumps.simps)
  with g dir sv read_template_fresh show ?thesis by (simp del: plain_dumps.simps)
qed

section \<open>The archive\<close>

lemma ancestor_is_dir:
  "tree_shaped fs \<Longrightarrow> node_at fs (p @ q) = Some Dir \<Longrightarrow> node_at fs p = Some Dir"
proof (induction q rule: rev_induct)
  case Nil
  then show ?case by simp
next
  case (snoc x xs)
  from snoc.prems(2) have "fs (p @ xs @ [x]) \<noteq> None"
    by (simp add: node_at_def)
  with snoc.prems(1) have "node_at fs (butlast (p @ xs @ [x])) = Some Dir"
    unfolding tree_shaped_def by (metis append_is_Nil_conv not_Cons_self2)
  then have "node_at fs (p @ xs) = Some Dir"
    by (simp add: butlast_append)
  with snoc show ?case by simp
qed

lemma makedirs_existing:
  "tree_shaped fs \<Longrightarrow> node_at fs (base @ xs) = Some Dir \<Longrightarrow> makedirs_from fs base xs = Inr fs"
proof (induction xs arbitrary: base)
  case Nil
  then show ?case by simp
next
  case (Cons x xs)
  from Cons.prems have all: "node_at fs ((base @ [x]) @ xs) = Some Dir" by simp
  with Cons.prems(1) have "node_at fs (base @ [x]) = Some Dir"
    by (rule ancestor_is_dir)
  with Cons.IH [OF Cons.prems(1) all] show ?case by simp
qed

lemma write_text_free:
  assumes "node_at fs (butlast p) = Some Dir" and "node_at fs p \<noteq> Some Dir"
  shows "write_text fs p s = Inr (fs(p \<mapsto> File s))"
  using assms
  by (cases "node_at fs p") (auto simp: write_text_def split: node.splits)

text \<open>
  C8. For a deployment directory that has a name, \<^verbatim>\<open>zip_deployment\<close> writes one file:
  it lies in the parent of the directory, its name is the directory's name followed by
  \<^verbatim>\<open>.zip\<close>, and it holds the zip encoding of the tree below the directory, with paths
  relative to the directory. Nothing else changes.
\<close>

theorem zip_deployment_archive:
  assumes tree: "tree_shaped fs"
      and nm: "path_name deploy_dir \<noteq> []"
      and dir: "node_at fs deploy_dir = Some Dir"
      and free: "node_at fs (path_parent deploy_dir @ [path_name deploy_dir @ ''.zip'']) \<noteq> Some Dir"
  shows "zip_deployment zip_encode deploy_dir fs =
           (Inr (), fs(path_parent deploy_dir @ [path_name deploy_dir @ ''.zip''] \<mapsto>
                         File (zip_encode (subtree fs deploy_dir)))) \<and>
         (\<forall>q. q \<noteq> [] \<longrightarrow> subtree fs deploy_dir q = fs (deploy_dir @ q))"
proof -
  from nm have ne: "deploy_dir \<noteq> []" by (auto simp: path_name_def)
  then have split: "butlast deploy_dir @ [last deploy_dir] = deploy_dir" by simp
  from nm ne have last: "last deploy_dir \<noteq> []" by (simp add: path_name_def)
  have zp: "path_join (path_parent deploy_dir) (path_name deploy_dir) = deploy_dir"
    using ne last split by (simp add: path_join_def path_parent_def path_name_def)
  have zf: "zip_filename deploy_dir = butlast deploy_dir @ [last deploy_dir @ ''.zip'']"
    using ne by (simp add: zip_filename_def)
  from dir split have "node_at fs (butlast deploy_dir @ [last deploy_dir]) = Some Dir" by simp
  with tree have parent: "node_at fs (butlast deploy_dir) = Some Dir"
    by (rule ancestor_is_dir)
  then have mk: "makedirs_from fs [] (butlast deploy_dir) = Inr fs"
    using makedirs_existing [OF tree, of "[]" "butlast deploy_dir"] by simp
  have free': "node_at fs (butlast deploy_dir @ [last deploy_dir @ ''.zip'']) \<noteq> Some Dir"
    using free ne by (simp add: path_parent_def path_name_def)
  have wr: "write_text fs (butlast deploy_dir @ [last deploy_dir @ ''.zip'']) s =
              Inr (fs(butlast deploy_dir @ [last deploy_dir @ ''.zip''] \<mapsto> File s))" for s
    using parent free' by (intro write_text_free) (simp_all add: butlast_append)
  have "zip_deployment zip_encode deploy_dir fs =
          (Inr (), fs(butlast deploy_dir @ [last deploy_dir @ ''.zip''] \<mapsto>
                         File (zip_encode (subtree fs deploy_dir))))"
    by (simp add: zip_deployment_def zp make_archive_def dir zf mk wr butlast_append)
  moreover have "\<forall>q. q \<noteq> [] \<longrightarrow> subtree fs deploy_dir q = fs (deploy_dir @ q)"
    by (simp add: subtree_def)
  ultimately show ?thesis using ne by (simp add: path_parent_def path_name_def)
qed

lemma tree_shaped_populated: "tree_shaped populated_fs"
  unfolding tree_shaped_def
  by (auto simp: populated_fs_def fresh_fs_def project_fs_def node_at_def split: if_splits)

theorem zip_deployment_archive_witness:
  "tree_shaped populated_fs \<and>
   path_name [''deployment'', ''sivad_03-11-26''] = ''sivad_03-11-26'' \<and>
   path_parent [''deployment'', ''sivad_03-11-26''] = [''deployment''] \<and>
   node_at populated_fs [''deployment'', ''sivad_03-11-26''] = Some Dir \<and>
   node_at populated_fs [''deployment'', ''sivad_03-11-26.zip''] = None \<and>
   zip_deployment entry_text [''deployment'', ''sivad_03-11-26''] populated_fs = (Inr (), deployed_fs)"
proof -
  have nm: "path_name [''deployment'', ''sivad_03-11-26''] = ''sivad_03-11-26''"
   and pp: "path_parent [''deployment'', ''sivad_03-11-26''] = [''deployment'']"
    by (simp_all add: path_name_def path_parent_def)
  have dir: "node_at populated_fs [''deployment'', ''sivad_03-11-26''] = Some Dir"
    by (simp add: node_at_def populated_fs_def fresh_fs_def)
  have free: "node_at populated_fs [''deployment'', ''sivad_03-11-26.zip''] = None"
    by (simp add: node_at_def populated_fs_def fresh_fs_def project_fs_def)
  have et: "entry_text (subtree populated_fs [''deployment'', ''sivad_03-11-26'']) = manifest_text"
    by (simp add: entry_text_def subtree_def populated_fs_def)
  from zip_deployment_archive [where zip_encode = entry_text, OF tree_shaped_populated, of "[''deployment'', ''sivad_03-11-26'']"]
  have "zip_deployment entry_text [''deployment'', ''sivad_03-11-26''] populated_fs = (Inr (), deployed_fs)"
    by (simp add: nm pp dir free et deployed_fs_def)
  with tree_shaped_populated nm pp dir free show ?thesis by simp
qed

section \<open>Two runs\<close>

lemma refresh_frame:
  assumes "refresh d fs = (Inr u, fs1)" and "\<not> prefix d q"
  shows "fs1 q = fs q"
proof -
  from assms(2) have "q \<noteq> d" by auto
  with assms show ?thesis
    by (auto simp: refresh_def rmtree_def mkdir_def
             split: if_splits option.splits node.splits sum.splits)
qed

lemma write_text_result:
  "write_text fs p s = Inr fs' \<Longrightarrow> fs' = fs(p \<mapsto> File s)"
  by (auto simp: write_text_def split: option.splits node.splits)

lemma copy_frame:
  assumes "copy fs src dst = Inr fs'" and "\<not> prefix dst q"
  shows "fs' q = fs q"
proof -
  from assms(2) have "q \<noteq> dst" "q \<noteq> dst @ [path_name src]" by auto
  with assms(1) show ?thesis
    by (auto simp: copy_def Let_def dest!: write_text_result
             split: option.splits node.splits if_splits)
qed

lemma init_deployment_frame:
  assumes run: "init_deployment ts fs = (Inr d, fs')" and out: "\<not> prefix (deployment_path_of ts) q"
  shows "fs' q = fs q"
proof -
  from init_deployment_steps [OF run] obtain fs1 fs2
    where d: "d = deployment_path_of ts"
      and r: "refresh d fs = (Inr (), fs1)"
      and c1: "copy fs1 [''template'', ''icon.png''] (d @ [''icon.png'']) = Inr fs2"
      and c2: "copy fs2 [''template'', ''README.md''] (d @ [''README.md'']) = Inr fs'"
    by blast
  from out d have o1: "\<not> prefix (d @ [''icon.png'']) q" and o2: "\<not> prefix (d @ [''README.md'']) q"
    by (auto dest: append_prefixD)
  from out d have "fs1 q = fs q" using refresh_frame [OF r] by simp
  moreover have "fs2 q = fs1 q" by (rule copy_frame [OF c1 o1])
  moreover have "fs' q = fs2 q" by (rule copy_frame [OF c2 o2])
  ultimately show ?thesis by simp
qed

lemma makedirs_keeps:
  "makedirs_from fs base xs = Inr fs' \<Longrightarrow> fs q = Some n \<Longrightarrow> fs' q = Some n"
proof (induction xs arbitrary: fs base)
  case Nil
  then show ?case by simp
next
  case (Cons x xs)
  show ?case
  proof (cases "node_at fs (base @ [x])")
    case None
    then have "fs (base @ [x]) = None" by (simp add: node_at_def)
    with Cons.prems(2) have "(fs(base @ [x] \<mapsto> Dir)) q = Some n" by auto
    moreover from Cons.prems(1) None
    have "makedirs_from (fs(base @ [x] \<mapsto> Dir)) (base @ [x]) xs = Inr fs'" by simp
    ultimately show ?thesis by (rule Cons.IH [rotated])
  next
    case (Some m)
    with Cons.prems(1) have "makedirs_from fs (base @ [x]) xs = Inr fs'"
      by (cases m) simp_all
    then show ?thesis using Cons.prems(2) by (rule Cons.IH)
  qed
qed

lemma zip_deployment_keeps:
  assumes run: "zip_deployment zip_encode d fs = (Inr u, fs')"
      and there: "fs q = Some n"
      and other: "q \<noteq> zip_filename (path_join (path_parent d) (path_name d))"
  shows "fs' q = Some n"
proof -
  let ?z = "zip_filename (path_join (path_parent d) (path_name d))"
  from run obtain fs1 where mk: "makedirs_from fs [] (butlast ?z) = Inr fs1"
    and wr: "write_text fs1 ?z (zip_encode (subtree fs1 d)) = Inr fs'"
    by (auto simp: zip_deployment_def make_archive_def Let_def
             split: option.splits node.splits sum.splits)
  from makedirs_keeps [OF mk there] have "fs1 q = Some n" .
  with write_text_result [OF wr] other show ?thesis by simp
qed

lemma read_manifest_template_cong:
  "read_text fs1 MANIFEST_TEMPLATE_PATH = read_text fs MANIFEST_TEMPLATE_PATH \<Longrightarrow>
     read_manifest_template json_loads fs1 = read_manifest_template json_loads fs"
  by (simp add: read_manifest_template_def from_template_path_def)

lemma load_sources_cong:
  "read_text fs1 [''sources'', ''mods.yml''] = read_text fs [''sources'', ''mods.yml''] \<Longrightarrow>
     load_sources yaml_load fs1 = load_sources yaml_load fs"
  by (simp add: load_sources_def load_yaml_def)

lemma manifest_template_path: "MANIFEST_TEMPLATE_PATH = [''template'', ''manifest.json'']"
  by (simp add: MANIFEST_TEMPLATE_PATH_def TEMPLATE_DIR_def path_join_def)

lemma deploy_it_manifest:
  assumes run: "deploy_it yaml_load json_loads json_dumps zip_encode ts fs = (Inr (), fs')"
  shows "\<exists>mods t. load_sources yaml_load fs = Inr mods \<and>
           read_manifest_template json_loads fs = Inr t \<and>
           fs' (deployment_path_of ts @ [''manifest.json'']) =
             Some (File (to_json json_dumps (with_deps t mods)))"
proof -
  let ?d = "deployment_path_of ts"
  let ?mp = "?d @ [''manifest.json'']"
  obtain mods where mods: "load_sources yaml_load fs = Inr mods"
    using run by (cases "load_sources yaml_load fs") (simp_all add: deploy_it_def)
  obtain r1 fs1 where i: "init_deployment ts fs = (r1, fs1)"
    by (cases "init_deployment ts fs")
  from run mods i obtain d where r1: "r1 = Inr d"
    by (cases r1) (simp_all add: deploy_it_def)
  from init_deployment_steps i r1 have d: "d = ?d" by blast
  obtain r2 fs2 where p: "populate_dependencies json_loads json_dumps mods d fs1 = (r2, fs2)"
    by (cases "populate_dependencies json_loads json_dumps mods d fs1")
  from run mods i r1 p have r2: "r2 = Inr ()"
    by (cases r2) (simp_all add: deploy_it_def)
  from run mods i r1 p r2 have z: "zip_deployment zip_encode d fs2 = (Inr (), fs')"
    by (simp add: deploy_it_def)
  have shape: "?d = [''deployment'', ''sivad_'' @ strftime_dmy ts]"
    by (rule deployment_path_of_eq)
  have "fs1 MANIFEST_TEMPLATE_PATH = fs MANIFEST_TEMPLATE_PATH"
    using i r1 by (intro init_deployment_frame [of ts fs d]) (simp_all add: shape manifest_template_path)
  then have "read_text fs1 MANIFEST_TEMPLATE_PATH = read_text fs MANIFEST_TEMPLATE_PATH"
    by (simp add: read_text_def node_at_def)
  then have tpl: "read_manifest_template json_loads fs1 = read_manifest_template json_loads fs"
    by (rule read_manifest_template_cong)
  have mp: "path_join d ''manifest.json'' = ?mp" by (simp add: path_join_def d)
  from p r2 obtain t where t: "read_manifest_template json_loads fs1 = Inr t"
    and w: "write_text fs1 ?mp (to_json json_dumps (with_deps t mods)) = Inr fs2"
    by (auto simp: populate_dependencies_def write_manifest_json_def write_to_def mp
             split: sum.splits)
  from write_text_result [OF w]
  have "fs2 ?mp = Some (File (to_json json_dumps (with_deps t mods)))" by simp
  moreover have "?mp \<noteq> zip_filename (path_join (path_parent d) (path_name d))"
    by (simp add: d shape zip_filename_def path_join_def path_parent_def path_name_def)
  ultimately have "fs' ?mp = Some (File (to_json json_dumps (with_deps t mods)))"
    by (rule zip_deployment_keeps [OF z])
  with mods t tpl show ?thesis by simp
qed

text \<open>
  C9. Two complete runs of \<^verbatim>\<open>deploy_it\<close>, from any two filesystems that hold the same
  configuration and the same manifest template, at any two times, leave the same
  \<^verbatim>\<open>manifest.json\<close> text in their deployment directories; on the same day that is the
  same file.
\<close>

theorem manifest_same_for_unchanged_inputs:
  assumes run1: "deploy_it yaml_load json_loads json_dumps zip_encode ts1 fsA = (Inr (), fsA')"
      and run2: "deploy_it yaml_load json_loads json_dumps zip_encode ts2 fsB = (Inr (), fsB')"
      and cfg: "read_text fsA [''sources'', ''mods.yml''] = read_text fsB [''sources'', ''mods.yml'']"
      and tpl: "read_text fsA MANIFEST_TEMPLATE_PATH = read_text fsB MANIFEST_TEMPLATE_PATH"
  shows "(\<exists>txt. fsA' (deployment_path_of ts1 @ [''manifest.json'']) = Some (File txt) \<and>
               fsB' (deployment_path_of ts2 @ [''manifest.json'']) = Some (File txt)) \<and>
         (day ts1 = day ts2 \<and> month ts1 = month ts2 \<and> year ts1 = year ts2 \<longrightarrow>
            deployment_path_of ts1 = deployment_path_of ts2)"
proof -
  from deploy_it_manifest [OF run1] obtain modsA tA
    where a: "load_sources yaml_load fsA = Inr modsA" "read_manifest_template json_loads fsA = Inr tA"
      "fsA' (deployment_path_of ts1 @ [''manifest.json'']) =
         Some (File (to_json json_dumps (with_deps tA modsA)))"
    by blast
  from deploy_it_manifest [OF run2] obtain modsB tB
    where b: "load_sources yaml_load fsB = Inr modsB" "read_manifest_template json_loads fsB = Inr tB"
      "fsB' (deployment_path_of ts2 @ [''manifest.json'']) =
         Some (File (to_json json_dumps (with_deps tB modsB)))"
    by blast
  from a(1) b(1) load_sources_cong [OF cfg, of yaml_load] have "modsA = modsB" by simp
  moreover from a(2) b(2) read_manifest_template_cong [OF tpl, of json_loads] have "tA = tB" by simp
  ultimately have "\<exists>txt. fsA' (deployment_path_of ts1 @ [''manifest.json'']) = Some (File txt) \<and>
               fsB' (deployment_path_of ts2 @ [''manifest.json'']) = Some (File txt)"
    using a(3) b(3) by simp
  then show ?thesis
    by (simp add: deployment_path_of_def strftime_dmy_def)
qed

lemma deployment_path_nov3_evening:
  "deployment_path_of nov3_evening = [''deployment'', ''sivad_03-11-26'']"
  by (simp add: deployment_path_of_eq strftime_dmy_def nov3_evening_def pad2_def str_nat.simps
        digit_char_def)

lemma load_sources_example:
  "read_text fs [''sources'', ''mods.yml''] = Inr txt \<Longrightarrow>
     load_sources (\<lambda>s. Inr [record_A, record_off, record_B]) fs = Inr [mod_A, mod_B]"
  by (simp add: load_sources_def load_yaml_def load_yaml_data_def from_dict_record_A
        from_dict_record_off from_dict_record_B mod_A_def mod_B_def)

lemma init_deployment_project:
  assumes "deployment_path_of ts = [''deployment'', ''sivad_03-11-26'']"
  shows "init_deployment ts project_fs = (Inr [''deployment'', ''sivad_03-11-26''], fresh_fs)"
proof -
  have "snd (init_deployment ts project_fs) = fresh_fs"
    by (rule ext)
       (simp add: init_deployment_def assms refresh_def is_file_def exists_path_def
          rmtree_def mkdir_def node_at_def fresh_fs_def project_fs_def copy_template_files_def
          STATIC_TEMPLATE_FILES_def TEMPLATE_DIR_def path_join_def copy_def write_text_def
          path_name_def Let_def)
  moreover have "fst (init_deployment ts project_fs) = Inr [''deployment'', ''sivad_03-11-26'']"
    by (simp add: init_deployment_def assms refresh_def is_file_def exists_path_def
          rmtree_def mkdir_def node_at_def project_fs_def copy_template_files_def
          STATIC_TEMPLATE_FILES_def TEMPLATE_DIR_def path_join_def copy_def write_text_def
          path_name_def Let_def)
  ultimately show ?thesis by (simp add: prod_eq_iff)
qed

lemma init_deployment_deployed:
  assumes "deployment_path_of ts = [''deployment'', ''sivad_03-11-26'']"
  shows "init_deployment ts deployed_fs = (Inr [''deployment'', ''sivad_03-11-26''], archived_fs)"
proof -
  have "snd (init_deployment ts deployed_fs) = archived_fs"
    by (rule ext)
       (simp add: init_deployment_def assms refresh_def is_file_def exists_path_def
          rmtree_def mkdir_def node_at_def deployed_fs_def populated_fs_def archived_fs_def
          fresh_fs_def project_fs_def copy_template_files_def
          STATIC_TEMPLATE_FILES_def TEMPLATE_DIR_def path_join_def copy_def write_text_def
          path_name_def Let_def)
  moreover have "fst (init_deployment ts deployed_fs) = Inr [''deployment'', ''sivad_03-11-26'']"
    by (simp add: init_deployment_def assms refresh_def is_file_def exists_path_def
          rmtree_def mkdir_def node_at_def deployed_fs_def populated_fs_def fresh_fs_def
          project_fs_def copy_template_files_def
          STATIC_TEMPLATE_FILES_def TEMPLATE_DIR_def path_join_def copy_def write_text_def
          path_name_def Let_def)
  ultimately show ?thesis by (simp add: prod_eq_iff)
qed

lemma read_template_fresh_like:
  "fs [''template'', ''manifest.json''] = Some (File ''tpl'') \<Longrightarrow>
     read_manifest_template (\<lambda>s. Inr (JObject good_template)) fs =
       Inr \<lparr>Manifest.name = JStr ''sivad'', version_number = JStr ''1.0.0'',
            website_url = JStr ''example.org'', description = JStr ''pack'', dependencies = []\<rparr>"
  by (simp add: read_manifest_template_def from_template_path_def manifest_template_path
        read_text_def node_at_def getitem_object good_template_def)

lemma to_json_example:
  "to_json plain_dumps (with_deps
      \<lparr>Manifest.name = JStr ''sivad'', version_number = JStr ''1.0.0'',
       website_url = JStr ''example.org'', description = JStr ''pack'', dependencies = []\<rparr>
      [mod_A, mod_B]) = manifest_text"
  by (simp add: to_json_def with_deps_def manifest_text_def mod_A_def mod_B_def
           del: plain_dumps.simps)

lemma populate_fresh:
  "populate_dependencies (\<lambda>s. Inr (JObject good_template)) plain_dumps [mod_A, mod_B]
     [''deployment'', ''sivad_03-11-26''] fresh_fs = (Inr (), populated_fs)"
proof -
  have t: "fresh_fs [''template'', ''manifest.json''] = Some (File ''tpl'')"
    by (simp add: fresh_fs_def project_fs_def)
  have w: "write_text fresh_fs [''deployment'', ''sivad_03-11-26'', ''manifest.json''] s =
             Inr (fresh_fs([''deployment'', ''sivad_03-11-26'', ''manifest.json''] \<mapsto> File s))" for s
    by (intro write_text_free) (simp_all add: node_at_def fresh_fs_def project_fs_def)
  show ?thesis
    by (simp add: populate_dependencies_def write_manifest_json_def read_template_fresh_like [of fresh_fs, OF t]
          write_to_def to_json_example path_join_def w populated_fs_def)
qed

lemma populate_archived:
  "populate_dependencies (\<lambda>s. Inr (JObject good_template)) plain_dumps [mod_A, mod_B]
     [''deployment'', ''sivad_03-11-26''] archived_fs = (Inr (), deployed_fs)"
proof -
  have t: "archived_fs [''template'', ''manifest.json''] = Some (File ''tpl'')"
    by (simp add: archived_fs_def fresh_fs_def project_fs_def)
  have w: "write_text archived_fs [''deployment'', ''sivad_03-11-26'', ''manifest.json''] s =
             Inr (archived_fs([''deployment'', ''sivad_03-11-26'', ''manifest.json''] \<mapsto> File s))" for s
    by (intro write_text_free) (simp_all add: node_at_def archived_fs_def fresh_fs_def project_fs_def)
  have "archived_fs([''deployment'', ''sivad_03-11-26'', ''manifest.json''] \<mapsto> File manifest_text)
          = deployed_fs"
    by (rule ext) (simp add: archived_fs_def deployed_fs_def populated_fs_def)
  then show ?thesis
    by (simp add: populate_dependencies_def write_manifest_json_def read_template_fresh_like [of archived_fs, OF t]
          write_to_def to_json_example path_join_def w)
qed

lemma zip_example:
  assumes dir: "fs [''deployment'', ''sivad_03-11-26''] = Some Dir"
      and par: "fs [''deployment''] = Some Dir"
      and man: "fs [''deployment'', ''sivad_03-11-26'', ''manifest.json''] = Some (File manifest_text)"
      and free: "fs [''deployment'', ''sivad_03-11-26.zip''] \<noteq> Some Dir"
  shows "zip_deployment entry_text [''deployment'', ''sivad_03-11-26''] fs =
           (Inr (), fs([''deployment'', ''sivad_03-11-26.zip''] \<mapsto> File manifest_text))"
proof -
  have w: "write_text fs [''deployment'', ''sivad_03-11-26.zip''] s =
             Inr (fs([''deployment'', ''sivad_03-11-26.zip''] \<mapsto> File s))" for s
    using par free by (intro write_text_free) (simp_all add: node_at_def)
  show ?thesis
    by (simp add: zip_deployment_def path_name_def path_parent_def path_join_def make_archive_def
          node_at_def dir par zip_filename_def w entry_text_def subtree_def man)
qed

lemma deploy_it_first_run:
  assumes "deployment_path_of ts = [''deployment'', ''sivad_03-11-26'']"
  shows "deploy_it (\<lambda>s. Inr [record_A, record_off, record_B]) (\<lambda>s. Inr (JObject good_template))
           plain_dumps entry_text ts project_fs = (Inr (), deployed_fs)"
proof -
  have rd: "read_text project_fs [''sources'', ''mods.yml''] = Inr ''mods''"
    by (simp add: read_text_def node_at_def project_fs_def)
  have z: "zip_deployment entry_text [''deployment'', ''sivad_03-11-26''] populated_fs =
             (Inr (), deployed_fs)"
    unfolding deployed_fs_def
    by (rule zip_example) (simp_all add: populated_fs_def fresh_fs_def project_fs_def)
  show ?thesis
    by (simp add: deploy_it_def load_sources_example [OF rd] init_deployment_project [OF assms]
          populate_fresh z)
qed

lemma deploy_it_second_run:
  assumes "deployment_path_of ts = [''deployment'', ''sivad_03-11-26'']"
  shows "deploy_it (\<lambda>s. Inr [record_A, record_off, record_B]) (\<lambda>s. Inr (JObject good_template))
           plain_dumps entry_text ts deployed_fs = (Inr (), deployed_fs)"
proof -
  have rd: "read_text deployed_fs [''sources'', ''mods.yml''] = Inr ''mods''"
    by (simp add: read_text_def node_at_def deployed_fs_def populated_fs_def fresh_fs_def
          project_fs_def)
  have "zip_deployment entry_text [''deployment'', ''sivad_03-11-26''] deployed_fs =
          (Inr (), deployed_fs([''deployment'', ''sivad_03-11-26.zip''] \<mapsto> File manifest_text))"
    by (rule zip_example) (simp_all add: deployed_fs_def populated_fs_def fresh_fs_def project_fs_def)
  moreover have "deployed_fs([''deployment'', ''sivad_03-11-26.zip''] \<mapsto> File manifest_text) = deployed_fs"
    by (rule ext) (simp add: deployed_fs_def)
  ultimately have z: "zip_deployment entry_text [''deployment'', ''sivad_03-11-26''] deployed_fs =
          (Inr (), deployed_fs)"
    by simp
  show ?thesis
    by (simp add: deploy_it_def load_sources_example [OF rd] init_deployment_deployed [OF assms]
          populate_archived z)
qed

theorem manifest_same_for_unchanged_inputs_witness:
  "deploy_it (\<lambda>s. Inr [record_A, record_off, record_B]) (\<lambda>s. Inr (JObject good_template))
     plain_dumps entry_text nov3 project_fs = (Inr (), deployed_fs) \<and>
   deploy_it (\<lambda>s. Inr [record_A, record_off, record_B]) (\<lambda>s. Inr (JObject good_template))
     plain_dumps entry_text nov3_evening deployed_fs = (Inr (), deployed_fs) \<and>
   read_text project_fs [''sources'', ''mods.yml''] = read_text deployed_fs [''sources'', ''mods.yml''] \<and>
   read_text project_fs MANIFEST_TEMPLATE_PATH = read_text deployed_fs MANIFEST_TEMPLATE_PATH \<and>
   hour nov3 \<noteq> hour nov3_evening \<and>
   deployment_path_of nov3 = deployment_path_of nov3_evening \<and>
   deployed_fs (deployment_path_of nov3 @ [''manifest.json'']) = Some (File manifest_text)"
proof -
  note r1 = deploy_it_first_run [OF deployment_path_nov3]
  note r2 = deploy_it_second_run [OF deployment_path_nov3_evening]
  have cfg: "read_text project_fs [''sources'', ''mods.yml''] = read_text deployed_fs [''sources'', ''mods.yml'']"
    by (simp add: read_text_def node_at_def deployed_fs_def populated_fs_def fresh_fs_def)
  have tpl: "read_text project_fs MANIFEST_TEMPLATE_PATH = read_text deployed_fs MANIFEST_TEMPLATE_PATH"
    by (simp add: read_text_def node_at_def deployed_fs_def populated_fs_def fresh_fs_def
          manifest_template_path)
  have m: "deployed_fs (deployment_path_of nov3 @ [''manifest.json'']) = Some (File manifest_text)"
    by (simp add: deployment_path_nov3 deployed_fs_def populated_fs_def)
  from manifest_same_for_unchanged_inputs [OF r1 r2 cfg tpl]
  have "deployment_path_of nov3 = deployment_path_of nov3_evening"
    by (simp add: nov3_def nov3_evening_def)
  moreover have "hour nov3 \<noteq> hour nov3_evening"
    by (simp add: nov3_def nov3_evening_def)
  ultimately show ?thesis using r1 r2 cfg tpl m by simp
qed

end
